theory Spec2Isabelle
  imports Main "HOL-Library.Word"
begin

unbundle bit_operations_syntax

section \<open>The quota allocator (\<^verbatim>\<open>l_alloc_restricted\<close>, sandbox.c lines 31-53)\<close>

text \<open>
  \<^verbatim>\<open>size_t\<close> is an unsigned machine integer; it is modelled as a 64-bit word (the width
  it has on a 64-bit Linux), so \<open>+\<close> and \<open>-\<close> wrap around as the C operators do and
  \<open><\<close> is the unsigned comparison.
\<close>

type_synonym size_t = "64 word"

text \<open>The calls the allocator makes to the C library underneath it.\<close>

datatype heap_call = Free_call | Realloc_call size_t

text \<open>
  What one call of the allocator leaves behind: whether the returned pointer is
  non-\<^verbatim>\<open>NULL\<close>, the counter \<^verbatim>\<open>*available\<close> after the call, the messages given to
  \<^verbatim>\<open>log_error\<close> and the calls made to the underlying allocator.
\<close>

record alloc_result =
  ret_nonnull :: bool
  available :: size_t
  alloc_log :: "string list"
  heap_calls :: "heap_call list"

text \<open>
  \<open>realloc_ok\<close> says whether \<^verbatim>\<open>realloc(ptr, nsize)\<close> returns a non-\<^verbatim>\<open>NULL\<close> pointer
  should the function reach that call; \<open>avail\<close> is \<^verbatim>\<open>*available\<close> on entry.
\<close>

definition l_alloc_restricted :: "bool \<Rightarrow> size_t \<Rightarrow> size_t \<Rightarrow> size_t \<Rightarrow> alloc_result" where
  "l_alloc_restricted realloc_ok avail osize nsize =
     (if nsize = 0 then
        \<lparr>ret_nonnull = False, available = avail + osize, alloc_log = [],
         heap_calls = [Free_call]\<rparr>
      else if nsize > osize \<and> avail < nsize - osize then
        \<lparr>ret_nonnull = False, available = avail, alloc_log = [''Out of memory!''],
         heap_calls = []\<rparr>
      else if realloc_ok then
        \<lparr>ret_nonnull = True,
         available = (if nsize > osize then avail - (nsize - osize)
                      else avail + (osize - nsize)),
         alloc_log = [], heap_calls = [Realloc_call nsize]\<rparr>
      else
        \<lparr>ret_nonnull = False, available = avail, alloc_log = [],
         heap_calls = [Realloc_call nsize]\<rparr>)"

text \<open>
  A run of the allocator: the requests the interpreter sends it, one after the other, each
  with the answer \<^verbatim>\<open>realloc\<close> would give. \<open>alloc_steps\<close> lists, for every call, the
  counter before it, the request and the counter after it.
\<close>

type_synonym request = "bool \<times> size_t \<times> size_t"

definition alloc_call :: "size_t \<Rightarrow> request \<Rightarrow> alloc_result" where
  "alloc_call avail r = (case r of (realloc_ok, osize, nsize) \<Rightarrow>
     l_alloc_restricted realloc_ok avail osize nsize)"

fun alloc_steps :: "size_t \<Rightarrow> request list \<Rightarrow> (size_t \<times> request \<times> size_t) list" where
  "alloc_steps avail [] = []"
| "alloc_steps avail (r # rs) =
     (avail, r, available (alloc_call avail r)) #
       alloc_steps (available (alloc_call avail r)) rs"

section \<open>The world outside the program\<close>

text \<open>
  An open input stream: the bytes of the file, whether reading it fails and whether
  closing it fails.
\<close>

record stream =
  bytes :: "8 word list"
  read_fails :: bool
  close_fails :: bool

text \<open>The error statuses of the Lua 5.1 API, with their values in \<^verbatim>\<open>lua.h\<close>.\<close>

datatype lua_status = LUA_ERRRUN | LUA_ERRSYNTAX | LUA_ERRMEM | LUA_ERRERR | LUA_ERRFILE

definition status_code :: "lua_status \<Rightarrow> int" where
  "status_code st =
     (case st of
        LUA_ERRRUN \<Rightarrow> 2
      | LUA_ERRSYNTAX \<Rightarrow> 3
      | LUA_ERRMEM \<Rightarrow> 4
      | LUA_ERRERR \<Rightarrow> 5
      | LUA_ERRFILE \<Rightarrow> 6)"

text \<open>
  Everything the C library, the operating system and the parts of the repository that are
  not among the sources answer when the sandbox asks:
  \<^item> \<open>files\<close>: what \<^verbatim>\<open>fopen(name, "r")\<close> gives, \<open>None\<close> when it returns \<^verbatim>\<open>NULL\<close>;
  \<^item> \<open>errno_text\<close>: the text \<^verbatim>\<open>%m\<close> prints;
  \<^item> \<open>newstate_fails\<close>: the interpreter cannot be created (\<^verbatim>\<open>lua_newstate\<close> returns \<^verbatim>\<open>NULL\<close>);
  \<^item> \<open>oom\<close>: \<open>oom w k\<close> says that the interpreter is refused the memory it asks for in
    its call number \<open>k\<close> (counted from 0 over the API calls that may allocate), be it by
    the quota allocator or by the C library;
  \<^item> \<open>lua_path\<close>: the module search path the package library starts with;
  \<^item> \<open>options_lua_fails\<close>: whether \<^verbatim>\<open>censorscope_options_lua\<close> fails;
  \<^item> \<open>sprintf_malloc_fails\<close>, \<open>malloc_fails\<close>: the two C allocations of the path extension;
  \<^item> \<open>loader\<close>: what \<^verbatim>\<open>luaL_loadfile\<close> finds in a file, \<open>None\<close> for a chunk that compiles,
    otherwise the error status and its message.
\<close>

record world =
  files :: "string \<Rightarrow> stream option"
  errno_text :: string
  newstate_fails :: bool
  oom :: "nat \<Rightarrow> bool"
  lua_path :: string
  options_lua_fails :: bool
  sprintf_malloc_fails :: bool
  malloc_fails :: bool
  loader :: "string \<Rightarrow> (lua_status \<times> string) option"

text \<open>
  A C string is modelled by the list of its characters before the closing zero byte. A
  Lua string may hold zero bytes; C reads it through a \<^verbatim>\<open>char *\<close> up to the first one.
\<close>

definition c_string :: "string \<Rightarrow> string" where
  "c_string s = takeWhile (\<lambda>c. c \<noteq> CHR 0x00) s"

section \<open>The script validator (\<^verbatim>\<open>is_valid_lua_script\<close>, sandbox.c lines 77-97)\<close>

definition BYTECODE_MAGIC_NUMBER :: int where
  "BYTECODE_MAGIC_NUMBER = 27"

definition EOF :: int where
  "EOF = - 1"

text \<open>
  \<^verbatim>\<open>fgetc\<close>: the next byte as an \<^verbatim>\<open>unsigned char\<close> turned into an \<^verbatim>\<open>int\<close>, or \<^verbatim>\<open>EOF\<close>
  at the end of the file and on a read error. \<^verbatim>\<open>EOF\<close> is \<open>-1\<close> in the C library the
  program is written for (it logs with \<^verbatim>\<open>%m\<close>); the standard asks for a negative \<^verbatim>\<open>int\<close>.
\<close>

definition fgetc :: "stream \<Rightarrow> int" where
  "fgetc handle =
     (if read_fails handle then EOF
      else case bytes handle of [] \<Rightarrow> EOF | b # rest \<Rightarrow> uint b)"

text \<open>The result is the returned \<^verbatim>\<open>int\<close> and the messages given to \<^verbatim>\<open>log_error\<close>.\<close>

definition is_valid_lua_script :: "world \<Rightarrow> string \<Rightarrow> int \<times> string list" where
  "is_valid_lua_script w filename =
     (case files w filename of
        None \<Rightarrow> (0, [''fopen('' @ filename @ '') error: '' @ errno_text w])
      | Some handle \<Rightarrow>
          (let first_byte = fgetc handle in
           if close_fails handle then
             (0, [''fgetc('' @ filename @ '') error: '' @ errno_text w])
           else if first_byte = 0 then (0, [])
           else if first_byte = BYTECODE_MAGIC_NUMBER then
             (0, [''for security, we do not evaluate Lua bytecode''])
           else (1, [])))"

section \<open>The embedded interpreter\<close>

text \<open>
  The Lua 5.1 library is not part of the repository. What follows is the part of its
  documented behaviour that \<^verbatim>\<open>sandbox.c\<close> relies on: a stack of values, tables held by
  reference, the count hook, loading a file, the protected call, and the errors the API
  raises, among them the memory error of a call that is refused the memory it needs.
\<close>

datatype lua_value =
  LNil | LBoolean bool | LString string | LTable nat | LFunction string nat

text \<open>
  \<open>LTable r\<close> is the table with reference \<open>r\<close>; \<open>LFunction f e\<close> is the chunk compiled
  from file \<open>f\<close> whose environment (the table its global variables are looked up in) is
  the table with reference \<open>e\<close>. A table maps field names to values, \<open>LNil\<close> for a
  field that is not there.
\<close>

type_synonym lua_table = "string \<Rightarrow> lua_value"

datatype lua_hook = Exit_hook
datatype lua_panic = Panic_lauxlib | Panic_sandbox
datatype lua_alloc = L_alloc_default | L_alloc_restricted

text \<open>
  The state of an interpreter. The hook's count and countdown are C \<^verbatim>\<open>int\<close>s, 32-bit words
  here, whose decrement wraps around (a countdown that starts at 0 comes to 0 again after
  \<open>2^32\<close> steps; in C the step below the least \<^verbatim>\<open>int\<close> is undefined). \<open>api_calls\<close> counts
  the calls that have asked for memory so far.
\<close>

record lua_State =
  stack :: "lua_value list"
  tables :: "nat \<Rightarrow> lua_table"
  next_ref :: nat
  hook :: "lua_hook option"
  hookmask :: int
  basehookcount :: "32 word"
  hookcount :: "32 word"
  panicf :: "lua_panic option"
  allocf :: lua_alloc
  api_calls :: nat

text \<open>The top of the stack is the head of the list: index \<open>-1\<close> is the head.\<close>

definition globals_ref :: nat where
  "globals_ref = 0"

definition empty_table :: lua_table where
  "empty_table = (\<lambda>k. LNil)"

definition LUA_HOOKCOUNT :: int where
  "LUA_HOOKCOUNT = 3"

definition LUA_MASKCOUNT :: int where
  "LUA_MASKCOUNT = 8"

text \<open>
  How an API call ends: it returns (\<open>Done\<close>), it raises a Lua error with a status and an
  error value (\<open>Raised\<close>), or the call is made against the rules of the API and its
  behaviour is undefined (\<open>Undefined\<close>).
\<close>

datatype 'a api = Done 'a | Raised lua_status lua_value | Undefined

definition api_bind :: "'a api \<Rightarrow> ('a \<Rightarrow> 'b api) \<Rightarrow> 'b api" where
  "api_bind r k =
     (case r of
        Done x \<Rightarrow> k x
      | Raised st e \<Rightarrow> Raised st e
      | Undefined \<Rightarrow> Undefined)"

text \<open>
  A call that the manual marks as raising memory errors (or any error) asks for memory
  first: when it is refused, it raises the memory error.
\<close>

definition lua_mem :: "world \<Rightarrow> lua_State \<Rightarrow> lua_State api" where
  "lua_mem w L =
     (if oom w (api_calls L) then Raised LUA_ERRMEM (LString ''not enough memory'')
      else Done (L\<lparr>api_calls := Suc (api_calls L)\<rparr>))"

definition lua_typename :: "lua_value \<Rightarrow> string" where
  "lua_typename v =
     (case v of
        LNil \<Rightarrow> ''nil''
      | LBoolean b \<Rightarrow> ''boolean''
      | LString s \<Rightarrow> ''string''
      | LTable r \<Rightarrow> ''table''
      | LFunction f e \<Rightarrow> ''function'')"

definition new_state :: "lua_alloc \<Rightarrow> lua_State" where
  "new_state f =
     \<lparr>stack = [], tables = (\<lambda>r. empty_table), next_ref = Suc globals_ref, hook = None,
      hookmask = 0, basehookcount = 0, hookcount = 0, panicf = None, allocf = f,
      api_calls = 0\<rparr>"

definition lua_newstate :: "world \<Rightarrow> lua_alloc \<Rightarrow> lua_State option" where
  "lua_newstate w f = (if newstate_fails w then None else Some (new_state f))"

definition lua_atpanic :: "lua_State \<Rightarrow> lua_panic \<Rightarrow> lua_State" where
  "lua_atpanic L f = L\<lparr>panicf := Some f\<rparr>"

definition luaL_newstate :: "world \<Rightarrow> lua_State option" where
  "luaL_newstate w =
     (case lua_newstate w L_alloc_default of
        None \<Rightarrow> None
      | Some L \<Rightarrow> Some (lua_atpanic L Panic_lauxlib))"

text \<open>\<^verbatim>\<open>lua_sethook(L, func, mask, count)\<close>: the count is a C \<^verbatim>\<open>int\<close>.\<close>

definition lua_sethook :: "lua_State \<Rightarrow> lua_hook option \<Rightarrow> int \<Rightarrow> 32 word \<Rightarrow> lua_State" where
  "lua_sethook L func hmask count =
     (if func = None \<or> hmask = 0 then
        L\<lparr>hook := None, hookmask := 0, basehookcount := count, hookcount := count\<rparr>
      else
        L\<lparr>hook := func, hookmask := hmask, basehookcount := count, hookcount := count\<rparr>)"

definition lua_pushstring :: "world \<Rightarrow> lua_State \<Rightarrow> string \<Rightarrow> lua_State api" where
  "lua_pushstring w L s =
     api_bind (lua_mem w L) (\<lambda>L1. Done (L1\<lparr>stack := LString s # stack L1\<rparr>))"

definition lua_newtable :: "world \<Rightarrow> lua_State \<Rightarrow> lua_State api" where
  "lua_newtable w L =
     api_bind (lua_mem w L) (\<lambda>L1.
       Done (L1\<lparr>stack := LTable (next_ref L1) # stack L1,
                tables := (tables L1)(next_ref L1 := empty_table),
                next_ref := Suc (next_ref L1)\<rparr>))"

definition lua_pop :: "lua_State \<Rightarrow> nat \<Rightarrow> lua_State" where
  "lua_pop L n = L\<lparr>stack := drop n (stack L)\<rparr>"

definition lua_getglobal :: "world \<Rightarrow> lua_State \<Rightarrow> string \<Rightarrow> lua_State api" where
  "lua_getglobal w L k =
     api_bind (lua_mem w L) (\<lambda>L1. Done (L1\<lparr>stack := tables L1 globals_ref k # stack L1\<rparr>))"

text \<open>\<^verbatim>\<open>lua_setglobal\<close> pops the value it stores; on an empty stack there is none.\<close>

definition lua_setglobal :: "world \<Rightarrow> lua_State \<Rightarrow> string \<Rightarrow> lua_State api" where
  "lua_setglobal w L k =
     api_bind (lua_mem w L) (\<lambda>L1.
       case stack L1 of
         [] \<Rightarrow> Undefined
       | v # rest \<Rightarrow>
           Done (L1\<lparr>stack := rest,
                    tables := (tables L1)(globals_ref := (tables L1 globals_ref)(k := v))\<rparr>))"

text \<open>
  \<^verbatim>\<open>lua_getfield(L, -1, k)\<close>: indexing a value that is not a table raises a Lua error.
\<close>

definition lua_getfield :: "world \<Rightarrow> lua_State \<Rightarrow> string \<Rightarrow> lua_State api" where
  "lua_getfield w L k =
     api_bind (lua_mem w L) (\<lambda>L1.
       case stack L1 of
         [] \<Rightarrow> Undefined
       | LTable r # rest \<Rightarrow> Done (L1\<lparr>stack := tables L1 r k # stack L1\<rparr>)
       | v # rest \<Rightarrow>
           Raised LUA_ERRRUN (LString (''attempt to index a '' @ lua_typename v @ '' value'')))"

text \<open>\<^verbatim>\<open>lua_setfield(L, -2, k)\<close>: stores the top value in the table below it and pops it.\<close>

definition lua_setfield :: "world \<Rightarrow> lua_State \<Rightarrow> string \<Rightarrow> lua_State api" where
  "lua_setfield w L k =
     api_bind (lua_mem w L) (\<lambda>L1.
       case stack L1 of
         v # LTable r # rest \<Rightarrow>
           Done (L1\<lparr>stack := LTable r # rest,
                    tables := (tables L1)(r := (tables L1 r)(k := v))\<rparr>)
       | v # u # rest \<Rightarrow>
           Raised LUA_ERRRUN (LString (''attempt to index a '' @ lua_typename u @ '' value''))
       | _ \<Rightarrow> Undefined)"

text \<open>
  \<^verbatim>\<open>lua_tostring\<close>: a pointer to the string, \<^verbatim>\<open>NULL\<close> for another value. (It allocates
  only when it turns a number into a string, and numbers are not among the values here.)
\<close>

definition value_tostring :: "lua_value \<Rightarrow> string option" where
  "value_tostring v = (case v of LString s \<Rightarrow> Some s | _ \<Rightarrow> None)"

definition lua_tostring :: "lua_State \<Rightarrow> string option" where
  "lua_tostring L = (case stack L of [] \<Rightarrow> None | v # rest \<Rightarrow> value_tostring v)"

text \<open>What \<^verbatim>\<open>%s\<close> prints for the pointer: the text up to its first zero byte.\<close>

definition fmt_s :: "string option \<Rightarrow> string" where
  "fmt_s p = (case p of None \<Rightarrow> ''(null)'' | Some s \<Rightarrow> c_string s)"

text \<open>
  \<^verbatim>\<open>lua_setfenv(L, -2)\<close> pops the table on top and makes it the environment of the value
  below it; it returns 1 for a function and 0 for a value that has no environment. With
  something else than a table on top its behaviour is undefined (\<open>None\<close>). It raises no
  error.
\<close>

definition lua_setfenv :: "lua_State \<Rightarrow> (int \<times> lua_State) option" where
  "lua_setfenv L =
     (case stack L of
        LTable r # LFunction f e # rest \<Rightarrow> Some (1, L\<lparr>stack := LFunction f r # rest\<rparr>)
      | LTable r # v # rest \<Rightarrow> Some (0, L\<lparr>stack := v # rest\<rparr>)
      | _ \<Rightarrow> None)"

text \<open>
  \<^verbatim>\<open>luaL_loadfile\<close> pushes the compiled chunk, a function whose environment is the table
  of globals, and returns 0; or it pushes the error message and returns the error status.
  Building the chunk's name, before the protected load, it may raise a memory error.
\<close>

definition luaL_loadfile :: "world \<Rightarrow> lua_State \<Rightarrow> string \<Rightarrow> (int \<times> lua_State) api" where
  "luaL_loadfile w L filename =
     api_bind (lua_mem w L) (\<lambda>L1.
       Done (case loader w filename of
               None \<Rightarrow> (0, L1\<lparr>stack := LFunction filename globals_ref # stack L1\<rparr>)
             | Some (st, msg) \<Rightarrow> (status_code st, L1\<lparr>stack := LString msg # stack L1\<rparr>)))"

text \<open>
  \<^verbatim>\<open>luaL_openlibs\<close> opens the standard libraries. Of what they put into the table of
  globals only the \<^verbatim>\<open>package\<close> table and its \<^verbatim>\<open>path\<close> field are kept here.
\<close>

definition luaL_openlibs :: "world \<Rightarrow> lua_State \<Rightarrow> lua_State api" where
  "luaL_openlibs w L =
     api_bind (lua_mem w L) (\<lambda>L1.
       Done (L1\<lparr>tables := (tables L1)
               (next_ref L1 := empty_table(''path'' := LString (c_string (lua_path w))),
                globals_ref := (tables L1 globals_ref)(''package'' := LTable (next_ref L1))),
             next_ref := Suc (next_ref L1)\<rparr>))"

subsection \<open>Running a chunk\<close>

text \<open>
  A script is a machine the interpreter steps through, one instruction at a time. What
  an instruction does is left open: \<open>i_step\<close> says whether the script goes on, returns a
  value or raises an error (with its status) that no handler of its own catches;
  \<open>i_catch\<close> says whether the script has a protected call of its own open that catches an
  error raised by the hook, and where it goes on from; \<open>i_where\<close> is the position
  \<^verbatim>\<open>luaL_where\<close> reports; \<open>i_heap\<close> is the tables as the script has left them.
\<close>

datatype 's insn = Continue 's | Finish 's lua_value | Raise 's lua_status lua_value

record 's interp =
  i_start :: "string \<Rightarrow> nat \<Rightarrow> (nat \<Rightarrow> lua_table) \<Rightarrow> nat \<Rightarrow> 's"
  i_step :: "'s \<Rightarrow> 's insn"
  i_catch :: "'s \<Rightarrow> lua_value \<Rightarrow> 's option"
  i_where :: "'s \<Rightarrow> string"
  i_heap :: "'s \<Rightarrow> (nat \<Rightarrow> lua_table) \<times> nat"

text \<open>
  \<^verbatim>\<open>luaL_error\<close> builds the message with the current position in front and raises it; when
  there is no memory for the message, the memory error is raised in its place. The result
  is the error raised and the state.
\<close>

definition luaL_error :: "world \<Rightarrow> lua_State \<Rightarrow> string \<Rightarrow> string \<Rightarrow> (lua_status \<times> lua_value) \<times> lua_State" where
  "luaL_error w L position msg =
     (if oom w (api_calls L) then ((LUA_ERRMEM, LString ''not enough memory''), L)
      else ((LUA_ERRRUN, LString (position @ msg)), L\<lparr>api_calls := Suc (api_calls L)\<rparr>))"

text \<open>
  \<^verbatim>\<open>exit_hook\<close> (sandbox.c lines 63-68): \<open>None\<close> when it returns, otherwise the error it
  raises.
\<close>

definition exit_hook :: "world \<Rightarrow> lua_State \<Rightarrow> string \<Rightarrow> int \<Rightarrow> (lua_status \<times> lua_value) option \<times> lua_State" where
  "exit_hook w L position event =
     (if event \<noteq> LUA_HOOKCOUNT then (None, L)
      else case luaL_error w L position ''instruction limit reached'' of
             (err, L1) \<Rightarrow> (Some err, L1))"

definition call_hook :: "world \<Rightarrow> lua_State \<Rightarrow> lua_hook \<Rightarrow> string \<Rightarrow> int \<Rightarrow> (lua_status \<times> lua_value) option \<times> lua_State" where
  "call_hook w L h position event = (case h of Exit_hook \<Rightarrow> exit_hook w L position event)"

text \<open>
  Before each instruction the interpreter counts the count hook down; when the count
  reaches zero it is set back to \<open>basehookcount\<close> and the hook is called with the event
  \<^verbatim>\<open>LUA_HOOKCOUNT\<close>. The result is the error the hook raised, if any, and the new state.
\<close>

definition traceexec :: "world \<Rightarrow> lua_State \<Rightarrow> string \<Rightarrow> (lua_status \<times> lua_value) option \<times> lua_State" where
  "traceexec w L position =
     (case hook L of
        None \<Rightarrow> (None, L)
      | Some h \<Rightarrow>
          if hookmask L AND LUA_MASKCOUNT = 0 then (None, L)
          else if hookcount L - 1 = 0 then
            call_hook w (L\<lparr>hookcount := basehookcount L\<rparr>) h position LUA_HOOKCOUNT
          else (None, L\<lparr>hookcount := hookcount L - 1\<rparr>))"

text \<open>
  The interpreter's main loop, with fuel: each unit of fuel pays for one instruction.
  \<open>Running\<close> is the answer when the fuel is used up before the script has ended.
\<close>

datatype 's exec = Returned 's lua_value | Thrown 's lua_status lua_value | Running

fun luaV_execute :: "nat \<Rightarrow> 's interp \<Rightarrow> world \<Rightarrow> lua_State \<Rightarrow> 's \<Rightarrow> 's exec \<times> lua_State" where
  "luaV_execute 0 I w L s = (Running, L)"
| "luaV_execute (Suc fuel) I w L s =
     (case traceexec w L (i_where I s) of
        (Some (st, e), L1) \<Rightarrow>
          (case i_catch I s e of
             Some s1 \<Rightarrow> luaV_execute fuel I w L1 s1
           | None \<Rightarrow> (Thrown s st e, L1))
      | (None, L1) \<Rightarrow>
          (case i_step I s of
             Continue s1 \<Rightarrow> luaV_execute fuel I w L1 s1
           | Finish s1 v \<Rightarrow> (Returned s1 v, L1)
           | Raise s1 st e \<Rightarrow> (Thrown s1 st e, L1)))"


text \<open>
  How a call into the interpreter ends for the host: it returns, it is still running when
  the fuel is used up, or the host does not survive it (an unprotected Lua error, which
  ends in the panic function and \<^verbatim>\<open>exit\<close>, or undefined behaviour of the C code).
\<close>

datatype 'a outcome = Ret 'a | Hang | Abort

text \<open>
  \<^verbatim>\<open>lua_pcall(L, 0, 1, 0)\<close>: calls the function on top of the stack with no arguments
  and replaces it by its one result and returns 0, or by the error value and returns
  the error status. Errors raised during the call, the hook's among them, end the call
  and not the host.
\<close>

definition lua_pcall :: "nat \<Rightarrow> 's interp \<Rightarrow> world \<Rightarrow> lua_State \<Rightarrow> (int \<times> lua_State) outcome" where
  "lua_pcall fuel I w L =
     (case stack L of
        [] \<Rightarrow> Abort
      | LFunction f e # rest \<Rightarrow>
          (case luaV_execute fuel I w (L\<lparr>stack := rest\<rparr>)
                  (i_start I f e (tables L) (next_ref L)) of
             (Returned s v, L1) \<Rightarrow>
               Ret (0, L1\<lparr>stack := v # rest, tables := fst (i_heap I s),
                            next_ref := snd (i_heap I s)\<rparr>)
           | (Thrown s st e, L1) \<Rightarrow>
               Ret (status_code st, L1\<lparr>stack := e # rest, tables := fst (i_heap I s),
                                         next_ref := snd (i_heap I s)\<rparr>)
           | (Running, L1) \<Rightarrow> Hang)
      | v # rest \<Rightarrow>
          Ret (status_code LUA_ERRRUN,
               L\<lparr>stack := LString (''attempt to call a '' @ lua_typename v @ '' value'') # rest\<rparr>))"

subsection \<open>Errors outside a protected call\<close>

text \<open>
  \<^verbatim>\<open>panic\<close> (sandbox.c lines 16-21) logs the error on top of the stack; the library then
  ends the process. The panic function of \<^verbatim>\<open>lauxlib\<close> writes to \<^verbatim>\<open>stderr\<close>, not to the log.
\<close>

definition panic :: "lua_value \<Rightarrow> string list" where
  "panic e =
     [''PANIC: unprotected error in call to Lua API ('' @ fmt_s (value_tostring e) @ '')'']"

definition at_panic :: "lua_State \<Rightarrow> lua_value \<Rightarrow> string list" where
  "at_panic L e =
     (case panicf L of
        Some Panic_sandbox \<Rightarrow> panic e
      | Some Panic_lauxlib \<Rightarrow> []
      | None \<Rightarrow> [])"

text \<open>
  What a C function of the sandbox gives back: its status, the interpreter and the
  messages logged. \<open>api_then L r k\<close> is an API call made from C outside any protected
  call, in state \<open>L\<close>, with answer \<open>r\<close>: when it returns, the function goes on with \<open>k\<close>;
  when it raises, the panic function runs and the host ends.
\<close>

type_synonym c_result = "int outcome \<times> lua_State \<times> string list"

definition api_then :: "lua_State \<Rightarrow> 'a api \<Rightarrow> ('a \<Rightarrow> c_result) \<Rightarrow> c_result" where
  "api_then L r k =
     (case r of
        Done x \<Rightarrow> k x
      | Raised st e \<Rightarrow> (Abort, L, at_panic L e)
      | Undefined \<Rightarrow> (Abort, L, []))"

section \<open>Creating a sandbox (\<^verbatim>\<open>sandbox_init\<close>, sandbox.c lines 109-169)\<close>

text \<open>
  Modelled from the spec: \<^verbatim>\<open>options.h\<close>, which declares \<^verbatim>\<open>censorscope_options_t\<close>, is not
  among the sources. The spec gives the four fields; \<^verbatim>\<open>options.c\<close> stores what \<^verbatim>\<open>strtol\<close>
  returns in the two limits without a check, so they are taken to be \<^verbatim>\<open>long\<close>: 64-bit
  words read as signed numbers (\<open>sint\<close>).
\<close>

record censorscope_options_t =
  max_memory :: "64 word"
  max_instructions :: "64 word"
  luasrc_dir :: string
  sandbox_dir :: string

text \<open>\<^verbatim>\<open>sandbox_t\<close>: the interpreter (\<open>None\<close> for \<^verbatim>\<open>NULL\<close>) and the quota counter.\<close>

record sandbox_t =
  sandbox_L :: "lua_State option"
  available_memory :: size_t

text \<open>
  Modelled from the spec: \<^verbatim>\<open>sprintf_malloc\<close> (\<^verbatim>\<open>util.c\<close>) is not among the sources. It
  formats into a buffer it allocates and returns \<^verbatim>\<open>NULL\<close> when the allocation fails;
  this is its one call, with the format \<^verbatim>\<open>"%s/?.lua"\<close>.
\<close>

definition sprintf_malloc :: "world \<Rightarrow> string \<Rightarrow> string option" where
  "sprintf_malloc w dir =
     (if sprintf_malloc_fails w then None else Some (dir @ ''/?.lua''))"

text \<open>
  Modelled from the spec: \<^verbatim>\<open>censorscope_options_lua\<close> is not among the sources. It fills
  the table on top of the stack with the option values, which are not looked at here, and
  returns non-zero when it fails. It works through the API, so it too may be refused
  memory.
\<close>

definition censorscope_options_lua :: "world \<Rightarrow> censorscope_options_t \<Rightarrow> lua_State \<Rightarrow> (int \<times> lua_State) api" where
  "censorscope_options_lua w options L =
     api_bind (lua_mem w L) (\<lambda>L1.
       Done (if options_lua_fails w then (- 1, L1) else (0, L1)))"

text \<open>
  \<^verbatim>\<open>snprintf(buf, n, ...)\<close> with the \<^verbatim>\<open>int\<close> \<open>n\<close> turned into a \<^verbatim>\<open>size_t\<close>: it writes at
  most that many characters less one of the formatted text, and the closing zero byte.
\<close>

definition snprintf :: "int \<Rightarrow> string \<Rightarrow> string" where
  "snprintf n s = take (nat (n mod 2 ^ 64) - 1) s"

text \<open>
  \<^verbatim>\<open>prepend_package_path\<close> (lines 109-125). The sum of the lengths is stored in the \<^verbatim>\<open>int\<close>
  \<^verbatim>\<open>new_len\<close>: its low 32 bits, read as a signed number. With a \<^verbatim>\<open>new_len\<close> of 0 \<^verbatim>\<open>snprintf\<close>
  writes nothing and \<^verbatim>\<open>lua_pushstring\<close> reads a buffer that was never written: undefined
  behaviour. When \<^verbatim>\<open>malloc\<close> fails the function returns with the two values it has pushed
  still on the stack. None of its API calls is protected.
\<close>

definition prepend_package_path :: "world \<Rightarrow> lua_State \<Rightarrow> string \<Rightarrow> c_result" where
  "prepend_package_path w L new_entry =
     api_then L (lua_getglobal w L ''package'') (\<lambda>L1.
     api_then L1 (lua_getfield w L1 ''path'') (\<lambda>L2.
       case lua_tostring L2 of
         None \<Rightarrow> (Abort, L2, [])
       | Some path \<Rightarrow>
           (let cur_path = c_string path;
                new_len = sint (word_of_nat (length cur_path + length new_entry + 1 + 1)
                                  :: 32 word)
            in if malloc_fails w then (Ret (- 1), L2, [])
               else if new_len = 0 then (Abort, L2, [])
               else
                 (let new_path = snprintf new_len (new_entry @ '';'' @ cur_path);
                      L3 = lua_pop L2 1
                  in api_then L3 (lua_pushstring w L3 new_path) (\<lambda>L4.
                     api_then L4 (lua_setfield w L4 ''path'') (\<lambda>L5.
                       (Ret 0, lua_pop L5 1, [])))))))"

text \<open>The module search path of an interpreter: the \<^verbatim>\<open>path\<close> field of \<^verbatim>\<open>package\<close>.\<close>

definition package_path :: "lua_State \<Rightarrow> lua_value" where
  "package_path L =
     (case tables L globals_ref ''package'' of
        LTable p \<Rightarrow> tables L p ''path''
      | _ \<Rightarrow> LNil)"


record init_result =
  init_status :: "int outcome"
  init_sandbox :: sandbox_t
  init_log :: "string list"

text \<open>Lines 158-168: the module path is extended.\<close>

definition sandbox_init_path :: "world \<Rightarrow> censorscope_options_t \<Rightarrow> lua_State \<Rightarrow> c_result" where
  "sandbox_init_path w options L8 =
     (case sprintf_malloc w (luasrc_dir options) of
        None \<Rightarrow> (Ret (- 1), L8, [])
      | Some new_pattern \<Rightarrow>
          (case prepend_package_path w L8 new_pattern of
             (Ret rc, L9, msgs) \<Rightarrow>
               if rc \<noteq> 0 then (Ret (- 1), L9, msgs @ [''error setting packages.path''])
               else (Ret 0, L9, msgs)
           | (st, L9, msgs) \<Rightarrow> (st, L9, msgs)))"

text \<open>Lines 144-168: the libraries, the two globals, then the module path.\<close>

definition sandbox_init_globals :: "world \<Rightarrow> string \<Rightarrow> censorscope_options_t \<Rightarrow> lua_State \<Rightarrow> c_result" where
  "sandbox_init_globals w name options L2 =
     api_then L2 (luaL_openlibs w L2) (\<lambda>L3.
     api_then L3 (lua_pushstring w L3 name) (\<lambda>L4.
     api_then L4 (lua_setglobal w L4 ''SANDBOX_NAME'') (\<lambda>L5.
     api_then L5 (lua_newtable w L5) (\<lambda>L6.
     api_then L6 (censorscope_options_lua w options L6) (\<lambda>r.
       case r of
         (rc, L7) \<Rightarrow>
           if rc \<noteq> 0 then
             (Ret (- 1), L7, [''error creating table of censorscope options''])
           else
             api_then L7 (lua_setglobal w L7 ''CENSORSCOPE_OPTIONS'') (\<lambda>L8.
               sandbox_init_path w options L8))))))"

text \<open>
  Lines 130-135: the interpreter is created, with the quota allocator or without. The
  assignment to \<^verbatim>\<open>available_memory\<close> turns the \<^verbatim>\<open>long\<close> into a \<^verbatim>\<open>size_t\<close> of the same bits.
\<close>

definition sandbox_init_state :: "world \<Rightarrow> sandbox_t \<Rightarrow> censorscope_options_t \<Rightarrow> sandbox_t" where
  "sandbox_init_state w sandbox options =
     (if 0 < sint (max_memory options) then
        sandbox\<lparr>available_memory := max_memory options,
                sandbox_L := lua_newstate w L_alloc_restricted\<rparr>
      else sandbox\<lparr>sandbox_L := luaL_newstate w\<rparr>)"

text \<open>
  Lines 140-143: the panic function and the instruction limit. The call turns the \<^verbatim>\<open>long\<close>
  \<open>max_instructions\<close> into the \<^verbatim>\<open>int\<close> that \<^verbatim>\<open>lua_sethook\<close> takes: its low 32 bits.
\<close>

definition sandbox_init_hooks :: "censorscope_options_t \<Rightarrow> lua_State \<Rightarrow> lua_State" where
  "sandbox_init_hooks options L0 =
     (let L1 = lua_atpanic L0 Panic_sandbox
      in if 0 < sint (max_instructions options) then
           lua_sethook L1 (Some Exit_hook) LUA_MASKCOUNT (ucast (max_instructions options))
         else L1)"

definition sandbox_init :: "world \<Rightarrow> sandbox_t \<Rightarrow> string \<Rightarrow> censorscope_options_t \<Rightarrow> init_result" where
  "sandbox_init w sandbox name options =
     (let sandbox1 = sandbox_init_state w sandbox options
      in case sandbox_L sandbox1 of
           None \<Rightarrow>
             \<lparr>init_status = Ret (- 1), init_sandbox = sandbox1,
              init_log = [''error calling luaL_newstate'']\<rparr>
         | Some L0 \<Rightarrow>
             (case sandbox_init_globals w name options (sandbox_init_hooks options L0) of
                (st, L9, msgs) \<Rightarrow>
                  \<lparr>init_status = st, init_sandbox = sandbox1\<lparr>sandbox_L := Some L9\<rparr>,
                   init_log = msgs\<rparr>))"

section \<open>Running a script (\<^verbatim>\<open>sandbox_run\<close>, sandbox.c lines 176-221)\<close>

text \<open>
  Besides the returned status, the interpreter and the messages logged, a run leaves two
  records: the files it touched, in order (\<open>Validate\<close>: given to \<^verbatim>\<open>is_valid_lua_script\<close>,
  \<open>Loadfile\<close>: given to \<^verbatim>\<open>luaL_loadfile\<close>), and the protected calls it made, each with the
  function called and the contents of that function's environment table at the call.
\<close>

datatype file_event = Validate string | Loadfile string

record run_result =
  run_status :: "int outcome"
  run_sandbox :: sandbox_t
  run_log :: "string list"
  run_files :: "file_event list"
  run_calls :: "(lua_value \<times> lua_table) list"

definition called :: "lua_State \<Rightarrow> (lua_value \<times> lua_table) list" where
  "called L =
     (case stack L of
        LFunction f e # rest \<Rightarrow> [(LFunction f e, tables L e)]
      | _ \<Rightarrow> [])"

text \<open>Lines 206-220: bind the environment on top of the stack to the chunk and call it.\<close>

definition sandbox_run_invoke :: "nat \<Rightarrow> 's interp \<Rightarrow> world \<Rightarrow> string \<Rightarrow> lua_State \<Rightarrow> int outcome \<times> lua_State \<times> string list \<times> (lua_value \<times> lua_table) list" where
  "sandbox_run_invoke fuel I w filename L =
     (case lua_setfenv L of
        None \<Rightarrow> (Abort, L, [], [])
      | Some (rc, L1) \<Rightarrow>
          if rc \<noteq> 1 then (Ret (- 1), L1, [fmt_s (lua_tostring L1)], [])
          else
            (case lua_pcall fuel I w L1 of
               Ret (rc2, L2) \<Rightarrow>
                 if rc2 \<noteq> 0 then
                   (Ret (- 1), L2,
                    [''error running '' @ filename @ '': '' @ fmt_s (lua_tostring L2)],
                    called L1)
                 else (Ret 0, L2, [], called L1)
             | Hang \<Rightarrow> (Hang, L1, [], called L1)
             | Abort \<Rightarrow> (Abort, L1, [], called L1)))"

text \<open>Lines 188-204: the environment, built by a script or a new empty table.\<close>

definition sandbox_run_environment :: "nat \<Rightarrow> 's interp \<Rightarrow> world \<Rightarrow> string option \<Rightarrow> lua_State \<Rightarrow> int outcome \<times> lua_State \<times> string list \<times> file_event list \<times> (lua_value \<times> lua_table) list" where
  "sandbox_run_environment fuel I w environment L1 =
     (case environment of
        None \<Rightarrow>
          (case lua_newtable w L1 of
             Done L2 \<Rightarrow> (Ret 0, L2, [], [], [])
           | Raised st e \<Rightarrow> (Abort, L1, at_panic L1 e, [], [])
           | Undefined \<Rightarrow> (Abort, L1, [], [], []))
      | Some env \<Rightarrow>
          (case luaL_loadfile w L1 env of
             Raised st e \<Rightarrow> (Abort, L1, at_panic L1 e, [Loadfile env], [])
           | Undefined \<Rightarrow> (Abort, L1, [], [Loadfile env], [])
           | Done (rc, L2) \<Rightarrow>
               if rc \<noteq> 0 then (Ret (- 1), L2, [fmt_s (lua_tostring L2)], [Loadfile env], [])
               else
                 (case lua_pcall fuel I w L2 of
                    Ret (rc2, L3) \<Rightarrow>
                      if rc2 \<noteq> 0 then
                        (Ret (- 1), L3, [fmt_s (lua_tostring L3)], [Loadfile env], called L2)
                      else (Ret 0, L3, [], [Loadfile env], called L2)
                  | Hang \<Rightarrow> (Hang, L2, [], [Loadfile env], called L2)
                  | Abort \<Rightarrow> (Abort, L2, [], [Loadfile env], called L2))))"

text \<open>Lines 188-220: what the run does once the target chunk is on the stack.\<close>

definition sandbox_run_loaded :: "nat \<Rightarrow> 's interp \<Rightarrow> world \<Rightarrow> sandbox_t \<Rightarrow> string \<Rightarrow> string option \<Rightarrow> string list \<Rightarrow> lua_State \<Rightarrow> run_result" where
  "sandbox_run_loaded fuel I w sandbox filename environment vlog L1 =
     (case sandbox_run_environment fuel I w environment L1 of
        (st, L3, elog, efiles, ecalls) \<Rightarrow>
          if st \<noteq> Ret 0 then
            \<lparr>run_status = st, run_sandbox = sandbox\<lparr>sandbox_L := Some L3\<rparr>,
             run_log = vlog @ elog,
             run_files = [Validate filename, Loadfile filename] @ efiles,
             run_calls = ecalls\<rparr>
          else
            (case sandbox_run_invoke fuel I w filename L3 of
               (st2, L5, ilog, icalls) \<Rightarrow>
                 \<lparr>run_status = st2, run_sandbox = sandbox\<lparr>sandbox_L := Some L5\<rparr>,
                  run_log = vlog @ elog @ ilog,
                  run_files = [Validate filename, Loadfile filename] @ efiles,
                  run_calls = ecalls @ icalls\<rparr>))"

definition sandbox_run :: "nat \<Rightarrow> 's interp \<Rightarrow> world \<Rightarrow> sandbox_t \<Rightarrow> string \<Rightarrow> string option \<Rightarrow> run_result" where
  "sandbox_run fuel I w sandbox filename environment =
     (case is_valid_lua_script w filename of
        (valid, vlog) \<Rightarrow>
          if valid = 0 then
            \<lparr>run_status = Ret (- 1), run_sandbox = sandbox, run_log = vlog,
             run_files = [Validate filename], run_calls = []\<rparr>
          else
            (case sandbox_L sandbox of
               None \<Rightarrow>
                 \<lparr>run_status = Abort, run_sandbox = sandbox, run_log = vlog,
                  run_files = [Validate filename, Loadfile filename], run_calls = []\<rparr>
             | Some L0 \<Rightarrow>
                 (case luaL_loadfile w L0 filename of
                    Raised st e \<Rightarrow>
                      \<lparr>run_status = Abort, run_sandbox = sandbox,
                       run_log = vlog @ at_panic L0 e,
                       run_files = [Validate filename, Loadfile filename], run_calls = []\<rparr>
                  | Undefined \<Rightarrow>
                      \<lparr>run_status = Abort, run_sandbox = sandbox, run_log = vlog,
                       run_files = [Validate filename, Loadfile filename], run_calls = []\<rparr>
                  | Done (rc, L1) \<Rightarrow>
                      if rc \<noteq> 0 then
                        \<lparr>run_status = Ret (- 1), run_sandbox = sandbox\<lparr>sandbox_L := Some L1\<rparr>,
                         run_log = vlog @ [fmt_s (lua_tostring L1)],
                         run_files = [Validate filename, Loadfile filename], run_calls = []\<rparr>
                      else
                        sandbox_run_loaded fuel I w sandbox filename environment vlog L1)))"

section \<open>Concrete inputs\<close>

text \<open>
  A world with two files, in which nothing fails: \<^verbatim>\<open>script.lua\<close> holds the given bytes
  and \<^verbatim>\<open>env.lua\<close> is a precompiled chunk (it starts with the signature byte 27), which
  the loader of Lua 5.1 accepts. A script that runs forever and catches nothing (its
  state counts the instructions it has executed), and one that catches every error and
  returns after five instructions. Options with an instruction limit of 3, and with one
  of \<open>2^32 + 3\<close>.
\<close>

definition example_world :: "8 word list \<Rightarrow> world" where
  "example_world bs =
     \<lparr>files = (\<lambda>name. if name = ''script.lua''
                       then Some \<lparr>bytes = bs, read_fails = False, close_fails = False\<rparr>
                       else if name = ''env.lua''
                       then Some \<lparr>bytes = [27, 76, 117, 97], read_fails = False,
                                  close_fails = False\<rparr>
                       else None),
      errno_text = ''No such file or directory'', newstate_fails = False,
      oom = (\<lambda>k. False), lua_path = ''./?.lua'', options_lua_fails = False,
      sprintf_malloc_fails = False, malloc_fails = False, loader = (\<lambda>name. None)\<rparr>"

definition example_interp :: "nat interp" where
  "example_interp =
     \<lparr>i_start = (\<lambda>f e h n. 0), i_step = (\<lambda>s. Continue (Suc s)), i_catch = (\<lambda>s e. None),
      i_where = (\<lambda>s. ''script.lua:1: ''), i_heap = (\<lambda>s. (\<lambda>r. empty_table, 0))\<rparr>"

definition catching_interp :: "nat interp" where
  "catching_interp =
     \<lparr>i_start = (\<lambda>f e h n. 0),
      i_step = (\<lambda>s. if s < 5 then Continue (Suc s) else Finish s LNil),
      i_catch = (\<lambda>s e. Some s),
      i_where = (\<lambda>s. ''script.lua:1: ''), i_heap = (\<lambda>s. (\<lambda>r. empty_table, 0))\<rparr>"

definition example_options :: censorscope_options_t where
  "example_options =
     \<lparr>max_memory = 0, max_instructions = 3, luasrc_dir = ''luasrc'', sandbox_dir = ''sandbox''\<rparr>"


definition example_sandbox :: sandbox_t where
  "example_sandbox = \<lparr>sandbox_L = Some (new_state L_alloc_default), available_memory = 0\<rparr>"

text \<open>The world in which the interpreter is refused memory in its call number \<open>k\<close>.\<close>

definition refusing_world :: "nat \<Rightarrow> world" where
  "refusing_world k = (example_world [120, 61, 49])\<lparr>oom := (\<lambda>j. j = k)\<rparr>"

text \<open>
  An interpreter as \<^verbatim>\<open>sandbox_init\<close> has it when the libraries are open: the panic
  function is set and \<^verbatim>\<open>package.path\<close> is \<^verbatim>\<open>./?.lua\<close>.
\<close>

definition opened_state :: lua_State where
  "opened_state =
     (case luaL_openlibs (example_world []) (lua_atpanic (new_state L_alloc_default) Panic_sandbox) of
        Done L \<Rightarrow> L
      | Raised st e \<Rightarrow> new_state L_alloc_default
      | Undefined \<Rightarrow> new_state L_alloc_default)"

text \<open>The same sandbox with the instruction limit of the given options installed.\<close>

definition limited_sandbox :: "censorscope_options_t \<Rightarrow> sandbox_t" where
  "limited_sandbox options =
     \<lparr>sandbox_L = Some (sandbox_init_hooks options (new_state L_alloc_default)),
      available_memory = 0\<rparr>"

section \<open>The quota allocator: refusal and accounting\<close>

text \<open>
  C2. A request that grows a block (\<open>nsize > osize\<close>) by more than the remaining quota is
  refused: the allocator returns \<^verbatim>\<open>NULL\<close>, logs the exhaustion and makes no call to the
  underlying allocator. And every allocation call (\<open>nsize \<noteq> 0\<close>) that fails, be it
  refused or because \<^verbatim>\<open>realloc\<close> returned \<^verbatim>\<open>NULL\<close>, leaves the counter exactly as it was.
\<close>

theorem quota_refusal:
  "(osize < nsize \<and> avail < nsize - osize \<longrightarrow>
      l_alloc_restricted realloc_ok avail osize nsize =
        \<lparr>ret_nonnull = False, available = avail, alloc_log = [''Out of memory!''],
         heap_calls = []\<rparr>) \<and>
   (nsize \<noteq> 0 \<and> \<not> ret_nonnull (l_alloc_restricted realloc_ok avail osize nsize) \<longrightarrow>
      available (l_alloc_restricted realloc_ok avail osize nsize) = avail)"
  by (auto simp: l_alloc_restricted_def)

theorem quota_refusal_witness:
  "(4 :: size_t) < 20 \<and> (10 :: size_t) < 20 - 4 \<and>
   l_alloc_restricted True 10 4 20 =
     \<lparr>ret_nonnull = False, available = 10, alloc_log = [''Out of memory!''],
      heap_calls = []\<rparr> \<and>
   (8 :: size_t) \<noteq> 0 \<and> \<not> ret_nonnull (l_alloc_restricted False 100 0 8) \<and>
   heap_calls (l_alloc_restricted False 100 0 8) = [Realloc_call 8] \<and>
   available (l_alloc_restricted False 100 0 8) = 100"
  using quota_refusal [where osize = 4 and nsize = 20 and avail = 10 and realloc_ok = True]
    quota_refusal [where osize = 0 and nsize = 8 and avail = 100 and realloc_ok = False]
  by (simp add: l_alloc_restricted_def)

text \<open>
  A debit is only made when the guard has let it through, so it is exact on the
  integers: the subtraction does not wrap.
\<close>

lemma grow_exact:
  assumes "osize < nsize" and "\<not> avail < nsize - osize"
  shows "uint (avail - (nsize - osize)) = uint avail - (uint nsize - uint osize)"
proof -
  have "osize \<le> nsize" using assms(1) by simp
  then have a: "uint (nsize - osize) = uint nsize - uint osize"
    by (rule uint_minus_simple_alt [THEN iffD1])
  have "nsize - osize \<le> avail" using assms(2) by simp
  then have "uint (avail - (nsize - osize)) = uint avail - uint (nsize - osize)"
    by (rule uint_minus_simple_alt [THEN iffD1])
  with a show ?thesis by simp
qed

text \<open>
  C3. A request with \<open>nsize = 0\<close> always succeeds: the block is freed, \<^verbatim>\<open>NULL\<close> is
  returned, nothing is logged and \<open>osize\<close> is added to the counter, whatever the counter
  was. A resize that succeeds takes \<open>nsize - osize\<close> off the counter when the block grows
  (exactly, as integers) and adds \<open>osize - nsize\<close> when it does not. The additions are
  those of \<^verbatim>\<open>size_t\<close>.
\<close>

theorem quota_accounting:
  "(nsize = 0 \<longrightarrow>
      l_alloc_restricted realloc_ok avail osize nsize =
        \<lparr>ret_nonnull = False, available = avail + osize, alloc_log = [],
         heap_calls = [Free_call]\<rparr>) \<and>
   (osize < nsize \<and> ret_nonnull (l_alloc_restricted realloc_ok avail osize nsize) \<longrightarrow>
      available (l_alloc_restricted realloc_ok avail osize nsize) = avail - (nsize - osize) \<and>
      uint (available (l_alloc_restricted realloc_ok avail osize nsize)) =
        uint avail - (uint nsize - uint osize)) \<and>
   (nsize \<noteq> 0 \<and> nsize \<le> osize \<and>
    ret_nonnull (l_alloc_restricted realloc_ok avail osize nsize) \<longrightarrow>
      available (l_alloc_restricted realloc_ok avail osize nsize) = avail + (osize - nsize))"
proof (intro conjI impI)
  assume "nsize = 0"
  then show "l_alloc_restricted realloc_ok avail osize nsize =
        \<lparr>ret_nonnull = False, available = avail + osize, alloc_log = [],
         heap_calls = [Free_call]\<rparr>"
    by (simp add: l_alloc_restricted_def)
next
  assume h: "osize < nsize \<and> ret_nonnull (l_alloc_restricted realloc_ok avail osize nsize)"
  then have n0: "nsize \<noteq> 0" by auto
  from h n0 have ok: "\<not> avail < nsize - osize" "realloc_ok"
    by (auto simp: l_alloc_restricted_def split: if_splits)
  from h n0 ok
  show eq: "available (l_alloc_restricted realloc_ok avail osize nsize) = avail - (nsize - osize)"
    by (simp add: l_alloc_restricted_def)
  show "uint (available (l_alloc_restricted realloc_ok avail osize nsize)) =
        uint avail - (uint nsize - uint osize)"
    using grow_exact [of osize nsize avail] h ok eq by simp
next
  assume "nsize \<noteq> 0 \<and> nsize \<le> osize \<and>
    ret_nonnull (l_alloc_restricted realloc_ok avail osize nsize)"
  then show "available (l_alloc_restricted realloc_ok avail osize nsize) = avail + (osize - nsize)"
    by (auto simp: l_alloc_restricted_def split: if_splits)
qed

theorem quota_accounting_witness:
  "l_alloc_restricted True 0 16 0 =
     \<lparr>ret_nonnull = False, available = 16, alloc_log = [], heap_calls = [Free_call]\<rparr> \<and>
   (4 :: size_t) < 20 \<and> ret_nonnull (l_alloc_restricted True 100 4 20) \<and>
   available (l_alloc_restricted True 100 4 20) = 84 \<and>
   uint (available (l_alloc_restricted True 100 4 20)) = 84 \<and>
   (8 :: size_t) \<noteq> 0 \<and> (8 :: size_t) \<le> 20 \<and>
   ret_nonnull (l_alloc_restricted True 100 20 8) \<and>
   available (l_alloc_restricted True 100 20 8) = 112"
  using quota_accounting [where nsize = 0 and realloc_ok = True and avail = 0 and osize = 16]
    quota_accounting [where nsize = 20 and realloc_ok = True and avail = 100 and osize = 4]
    quota_accounting [where nsize = 8 and realloc_ok = True and avail = 100 and osize = 20]
  by (simp add: l_alloc_restricted_def)

lemma alloc_steps_post:
  "(pre, r, post) \<in> set (alloc_steps start reqs) \<Longrightarrow> post = available (alloc_call pre r)"
  by (induction reqs arbitrary: start) auto

text \<open>
  C5. In every sequence of calls, whatever the counter starts from, the counter read as
  a number is never negative after a call, and no call takes more off it than it holds:
  after a request that grows a block the counter is either what it was or exactly the
  integer difference \<open>pre - (nsize - osize)\<close>, with \<open>nsize - osize \<le> pre\<close>; a request
  that frees or shrinks takes nothing off.
\<close>

theorem remaining_quota_never_underflows:
  assumes "(pre, (realloc_ok, osize, nsize), post) \<in> set (alloc_steps max_mem reqs)"
  shows "0 \<le> uint post \<and>
         (osize < nsize \<longrightarrow>
            post = pre \<or>
            (uint nsize - uint osize \<le> uint pre \<and>
             uint post = uint pre - (uint nsize - uint osize))) \<and>
         (nsize \<le> osize \<longrightarrow> post = pre \<or> post = pre + (osize - nsize))"
proof -
  have post: "post = available (l_alloc_restricted realloc_ok pre osize nsize)"
    using alloc_steps_post [OF assms] by (simp add: alloc_call_def)
  have grow: "post = pre \<or>
            (uint nsize - uint osize \<le> uint pre \<and>
             uint post = uint pre - (uint nsize - uint osize))" if lt: "osize < nsize"
  proof (cases "pre < nsize - osize \<or> \<not> realloc_ok")
    case True
    then have "post = pre" using lt post by (auto simp: l_alloc_restricted_def)
    then show ?thesis by simp
  next
    case False
    then have ok: "\<not> pre < nsize - osize" "realloc_ok" by auto
    have n0: "nsize \<noteq> 0" using lt by auto
    have "post = pre - (nsize - osize)"
      using lt ok n0 post by (simp add: l_alloc_restricted_def)
    then have eq: "uint post = uint pre - (uint nsize - uint osize)"
      using grow_exact [OF lt ok(1)] by simp
    have "0 \<le> uint post" by simp
    with eq show ?thesis by simp
  qed
  have shrink: "post = pre \<or> post = pre + (osize - nsize)" if "nsize \<le> osize"
    using that post by (auto simp: l_alloc_restricted_def)
  show ?thesis using grow shrink by simp
qed

theorem remaining_quota_never_underflows_witness:
  "(1024, (True, 0, 1000), 24) \<in>
     set (alloc_steps 1024 [(True, 0, 1000), (True, 0, 100), (True, 1000, 0)]) \<and>
   (24, (True, 0, 100), 24) \<in>
     set (alloc_steps 1024 [(True, 0, 1000), (True, 0, 100), (True, 1000, 0)]) \<and>
   (24, (True, 1000, 0), 1024) \<in>
     set (alloc_steps 1024 [(True, 0, 1000), (True, 0, 100), (True, 1000, 0)]) \<and>
   (0 :: size_t) < 1000 \<and> uint (1000 :: size_t) - uint (0 :: size_t) \<le> uint (1024 :: size_t) \<and>
   uint (24 :: size_t) = uint (1024 :: size_t) - (uint (1000 :: size_t) - uint (0 :: size_t)) \<and>
   (0 :: size_t) \<le> 1000 \<and> (1024 :: size_t) = 24 + (1000 - 0)"
  using remaining_quota_never_underflows
    [where pre = 1024 and realloc_ok = True and osize = 0 and nsize = 1000 and post = 24
       and max_mem = 1024 and reqs = "[(True, 0, 1000), (True, 0, 100), (True, 1000, 0)]"]
    remaining_quota_never_underflows
    [where pre = 24 and realloc_ok = True and osize = 1000 and nsize = 0 and post = 1024
       and max_mem = 1024 and reqs = "[(True, 0, 1000), (True, 0, 100), (True, 1000, 0)]"]
  by (simp add: alloc_call_def l_alloc_restricted_def)

section \<open>The script validator\<close>

lemma uint_byte_27: "(uint (b :: 8 word) = 27) = (b = 27)"
  by (simp add: word_uint_eq_iff)

lemma status_code_nonzero: "status_code st \<noteq> 0"
  by (cases st) (simp_all add: status_code_def)

lemma fmt_s_LString: "fmt_s (value_tostring (LString s)) = c_string s"
  by (simp add: fmt_s_def value_tostring_def)

lemma luaL_loadfile_result:
  "luaL_loadfile w L filename =
     (if oom w (api_calls L) then Raised LUA_ERRMEM (LString ''not enough memory'')
      else Done (case loader w filename of
                   None \<Rightarrow>
                     (0, L\<lparr>api_calls := Suc (api_calls L),
                           stack := LFunction filename globals_ref # stack L\<rparr>)
                 | Some (st, msg) \<Rightarrow>
                     (status_code st, L\<lparr>api_calls := Suc (api_calls L),
                                         stack := LString msg # stack L\<rparr>)))"
  by (simp add: luaL_loadfile_def lua_mem_def api_bind_def split: option.splits)

lemma sandbox_run_rejected:
  "fst (is_valid_lua_script w filename) = 0 \<Longrightarrow>
   sandbox_run fuel I w sandbox filename environment =
     \<lparr>run_status = Ret (- 1), run_sandbox = sandbox,
      run_log = snd (is_valid_lua_script w filename),
      run_files = [Validate filename], run_calls = []\<rparr>"
  by (cases "is_valid_lua_script w filename") (simp add: sandbox_run_def)

lemma sandbox_run_accepted:
  assumes "fst (is_valid_lua_script w filename) \<noteq> 0" and "sandbox_L sandbox = Some L0"
    and "\<not> oom w (api_calls L0)"
  shows "sandbox_run fuel I w sandbox filename environment =
     (case loader w filename of
        Some (st, msg) \<Rightarrow>
          \<lparr>run_status = Ret (- 1),
           run_sandbox = sandbox\<lparr>sandbox_L :=
             Some (L0\<lparr>api_calls := Suc (api_calls L0), stack := LString msg # stack L0\<rparr>)\<rparr>,
           run_log = snd (is_valid_lua_script w filename) @ [c_string msg],
           run_files = [Validate filename, Loadfile filename], run_calls = []\<rparr>
      | None \<Rightarrow>
          sandbox_run_loaded fuel I w sandbox filename environment
            (snd (is_valid_lua_script w filename))
            (L0\<lparr>api_calls := Suc (api_calls L0),
                stack := LFunction filename globals_ref # stack L0\<rparr>))"
  using assms
  by (cases "is_valid_lua_script w filename")
    (simp add: sandbox_run_def luaL_loadfile_result status_code_nonzero lua_tostring_def
      fmt_s_LString split: option.splits)

lemma sandbox_run_load_refused:
  assumes "fst (is_valid_lua_script w filename) \<noteq> 0" and "sandbox_L sandbox = Some L0"
    and "oom w (api_calls L0)"
  shows "sandbox_run fuel I w sandbox filename environment =
     \<lparr>run_status = Abort, run_sandbox = sandbox,
      run_log = snd (is_valid_lua_script w filename) @
                  at_panic L0 (LString ''not enough memory''),
      run_files = [Validate filename, Loadfile filename], run_calls = []\<rparr>"
  using assms
  by (cases "is_valid_lua_script w filename") (simp add: sandbox_run_def luaL_loadfile_result)

text \<open>
  C1. For a file that opens, delivers its first byte and closes without an I/O error (an
  I/O failure is a rejection of its own), the validator decides by that byte alone. The
  bytecode signature 27 is rejected with the security message, and 0 is rejected without
  a message: in both cases \<^verbatim>\<open>sandbox_run\<close> returns \<open>-1\<close> and leaves the interpreter as it
  was, so nothing has been loaded. Any other byte is accepted, and \<^verbatim>\<open>sandbox_run\<close> goes on
  to load the file: when the interpreter has the memory for the call, the loader's answer
  decides the outcome. A loader error makes the run return \<open>-1\<close>, log the loader's
  message and leave that message on the interpreter's stack; a chunk that compiles is put
  on the stack and the run goes on with the steps after the load (lines 188-220).
\<close>

theorem is_valid_lua_script_first_byte:
  assumes "files w filename = Some handle" and "\<not> read_fails handle"
    and "\<not> close_fails handle" and "bytes handle = b # rest"
  shows "(b = 27 \<longrightarrow>
            is_valid_lua_script w filename =
              (0, [''for security, we do not evaluate Lua bytecode'']) \<and>
            sandbox_run fuel I w sandbox filename environment =
              \<lparr>run_status = Ret (- 1), run_sandbox = sandbox,
               run_log = [''for security, we do not evaluate Lua bytecode''],
               run_files = [Validate filename], run_calls = []\<rparr>) \<and>
         (b = 0 \<longrightarrow>
            is_valid_lua_script w filename = (0, []) \<and>
            sandbox_run fuel I w sandbox filename environment =
              \<lparr>run_status = Ret (- 1), run_sandbox = sandbox, run_log = [],
               run_files = [Validate filename], run_calls = []\<rparr>) \<and>
         (b \<noteq> 27 \<and> b \<noteq> 0 \<longrightarrow>
            is_valid_lua_script w filename = (1, []) \<and>
            (sandbox_L sandbox = Some L0 \<and> \<not> oom w (api_calls L0) \<longrightarrow>
               sandbox_run fuel I w sandbox filename environment =
                 (case loader w filename of
                    Some (st, msg) \<Rightarrow>
                      \<lparr>run_status = Ret (- 1),
                       run_sandbox = sandbox\<lparr>sandbox_L :=
                         Some (L0\<lparr>api_calls := Suc (api_calls L0),
                                   stack := LString msg # stack L0\<rparr>)\<rparr>,
                       run_log = [c_string msg],
                       run_files = [Validate filename, Loadfile filename], run_calls = []\<rparr>
                  | None \<Rightarrow>
                      sandbox_run_loaded fuel I w sandbox filename environment []
                        (L0\<lparr>api_calls := Suc (api_calls L0),
                            stack := LFunction filename globals_ref # stack L0\<rparr>))))"
proof -
  have v: "is_valid_lua_script w filename =
      (if b = 0 then (0, [])
       else if b = 27 then (0, [''for security, we do not evaluate Lua bytecode''])
       else (1, []))"
    using assms
    by (simp add: is_valid_lua_script_def fgetc_def BYTECODE_MAGIC_NUMBER_def Let_def
        uint_byte_27 uint_0_iff)
  show ?thesis
  proof (intro conjI impI)
    assume b: "b = 27"
    then show r: "is_valid_lua_script w filename =
        (0, [''for security, we do not evaluate Lua bytecode''])"
      using v by simp
    show "sandbox_run fuel I w sandbox filename environment =
        \<lparr>run_status = Ret (- 1), run_sandbox = sandbox,
         run_log = [''for security, we do not evaluate Lua bytecode''],
         run_files = [Validate filename], run_calls = []\<rparr>"
      using sandbox_run_rejected [of w filename fuel I sandbox environment] r by simp
  next
    assume b: "b = 0"
    then show r: "is_valid_lua_script w filename = (0, [])" using v by simp
    show "sandbox_run fuel I w sandbox filename environment =
        \<lparr>run_status = Ret (- 1), run_sandbox = sandbox, run_log = [],
         run_files = [Validate filename], run_calls = []\<rparr>"
      using sandbox_run_rejected [of w filename fuel I sandbox environment] r by simp
  next
    assume b: "b \<noteq> 27 \<and> b \<noteq> 0"
    then show r: "is_valid_lua_script w filename = (1, [])" using v by simp
    assume "sandbox_L sandbox = Some L0 \<and> \<not> oom w (api_calls L0)"
    then show "sandbox_run fuel I w sandbox filename environment =
        (case loader w filename of
           Some (st, msg) \<Rightarrow>
             \<lparr>run_status = Ret (- 1),
              run_sandbox = sandbox\<lparr>sandbox_L :=
                Some (L0\<lparr>api_calls := Suc (api_calls L0),
                          stack := LString msg # stack L0\<rparr>)\<rparr>,
              run_log = [c_string msg],
              run_files = [Validate filename, Loadfile filename], run_calls = []\<rparr>
         | None \<Rightarrow>
             sandbox_run_loaded fuel I w sandbox filename environment []
               (L0\<lparr>api_calls := Suc (api_calls L0),
                   stack := LFunction filename globals_ref # stack L0\<rparr>))"
      using sandbox_run_accepted [of w filename sandbox L0 fuel I environment] r
      by (simp split: option.splits)
  qed
qed

theorem is_valid_lua_script_first_byte_witness:
  "sandbox_run 5 example_interp (example_world [27, 76, 117, 97]) example_sandbox
     ''script.lua'' None =
     \<lparr>run_status = Ret (- 1), run_sandbox = example_sandbox,
      run_log = [''for security, we do not evaluate Lua bytecode''],
      run_files = [Validate ''script.lua''], run_calls = []\<rparr> \<and>
   sandbox_run 5 example_interp (example_world [0, 120]) example_sandbox
     ''script.lua'' None =
     \<lparr>run_status = Ret (- 1), run_sandbox = example_sandbox, run_log = [],
      run_files = [Validate ''script.lua''], run_calls = []\<rparr> \<and>
   is_valid_lua_script (example_world [120, 61, 49]) ''script.lua'' = (1, []) \<and>
   sandbox_run 5 example_interp (example_world [120, 61, 49]) example_sandbox
     ''script.lua'' None =
     sandbox_run_loaded 5 example_interp (example_world [120, 61, 49]) example_sandbox
       ''script.lua'' None []
       ((new_state L_alloc_default)\<lparr>api_calls := 1,
          stack := [LFunction ''script.lua'' globals_ref]\<rparr>) \<and>
   sandbox_run 5 example_interp
     ((example_world [120, 61, 49])\<lparr>loader :=
        (\<lambda>name. Some (LUA_ERRSYNTAX, ''script.lua:1: unexpected symbol''))\<rparr>)
     example_sandbox ''script.lua'' None =
     \<lparr>run_status = Ret (- 1),
      run_sandbox = example_sandbox\<lparr>sandbox_L :=
        Some ((new_state L_alloc_default)\<lparr>api_calls := 1,
                stack := [LString ''script.lua:1: unexpected symbol'']\<rparr>)\<rparr>,
      run_log = [''script.lua:1: unexpected symbol''],
      run_files = [Validate ''script.lua'', Loadfile ''script.lua''], run_calls = []\<rparr>"
  using is_valid_lua_script_first_byte
    [where w = "example_world [27, 76, 117, 97]" and filename = "''script.lua''"
       and handle = "\<lparr>bytes = [27, 76, 117, 97], read_fails = False, close_fails = False\<rparr>"
       and b = 27 and rest = "[76, 117, 97]" and fuel = 5 and I = example_interp
       and sandbox = example_sandbox and environment = None
       and ?L0.0 = "new_state L_alloc_default"]
    is_valid_lua_script_first_byte
    [where w = "example_world [0, 120]" and filename = "''script.lua''"
       and handle = "\<lparr>bytes = [0, 120], read_fails = False, close_fails = False\<rparr>"
       and b = 0 and rest = "[120]" and fuel = 5 and I = example_interp
       and sandbox = example_sandbox and environment = None
       and ?L0.0 = "new_state L_alloc_default"]
    is_valid_lua_script_first_byte
    [where w = "example_world [120, 61, 49]" and filename = "''script.lua''"
       and handle = "\<lparr>bytes = [120, 61, 49], read_fails = False, close_fails = False\<rparr>"
       and b = 120 and rest = "[61, 49]" and fuel = 5 and I = example_interp
       and sandbox = example_sandbox and environment = None
       and ?L0.0 = "new_state L_alloc_default"]
    is_valid_lua_script_first_byte
    [where w = "(example_world [120, 61, 49])\<lparr>loader :=
        (\<lambda>name. Some (LUA_ERRSYNTAX, ''script.lua:1: unexpected symbol''))\<rparr>"
       and filename = "''script.lua''"
       and handle = "\<lparr>bytes = [120, 61, 49], read_fails = False, close_fails = False\<rparr>"
       and b = 120 and rest = "[61, 49]" and fuel = 5 and I = example_interp
       and sandbox = example_sandbox and environment = None
       and ?L0.0 = "new_state L_alloc_default"]
  by (simp add: example_world_def example_sandbox_def new_state_def c_string_def)

text \<open>
  C10. A file that opens but is empty: \<^verbatim>\<open>fgetc\<close> returns \<^verbatim>\<open>EOF\<close>, which is neither 0 nor
  27, so the validator returns 1 (the stream closing without an error) and \<^verbatim>\<open>sandbox_run\<close>
  does not reject the file but loads it: when the interpreter has the memory for the
  call, a loader error makes the run return \<open>-1\<close> with the loader's message, logged and
  left on the stack, and a chunk that compiles is put on the stack, where the run goes on
  with the steps after the load.
\<close>

theorem empty_file_is_accepted:
  assumes "files w filename = Some handle" and "bytes handle = []"
    and "\<not> close_fails handle"
  shows "fgetc handle = EOF \<and> EOF \<noteq> 0 \<and> EOF \<noteq> BYTECODE_MAGIC_NUMBER \<and>
         is_valid_lua_script w filename = (1, []) \<and>
         (sandbox_L sandbox = Some L0 \<and> \<not> oom w (api_calls L0) \<longrightarrow>
            sandbox_run fuel I w sandbox filename environment =
              (case loader w filename of
                 Some (st, msg) \<Rightarrow>
                   \<lparr>run_status = Ret (- 1),
                    run_sandbox = sandbox\<lparr>sandbox_L :=
                      Some (L0\<lparr>api_calls := Suc (api_calls L0),
                                stack := LString msg # stack L0\<rparr>)\<rparr>,
                    run_log = [c_string msg],
                    run_files = [Validate filename, Loadfile filename], run_calls = []\<rparr>
               | None \<Rightarrow>
                   sandbox_run_loaded fuel I w sandbox filename environment []
                     (L0\<lparr>api_calls := Suc (api_calls L0),
                         stack := LFunction filename globals_ref # stack L0\<rparr>)))"
proof -
  have e: "fgetc handle = EOF" using assms(2) by (simp add: fgetc_def)
  have v: "is_valid_lua_script w filename = (1, [])"
    using assms e
    by (simp add: is_valid_lua_script_def EOF_def BYTECODE_MAGIC_NUMBER_def Let_def)
  have r: "sandbox_L sandbox = Some L0 \<and> \<not> oom w (api_calls L0) \<longrightarrow>
      sandbox_run fuel I w sandbox filename environment =
        (case loader w filename of
           Some (st, msg) \<Rightarrow>
             \<lparr>run_status = Ret (- 1),
              run_sandbox = sandbox\<lparr>sandbox_L :=
                Some (L0\<lparr>api_calls := Suc (api_calls L0),
                          stack := LString msg # stack L0\<rparr>)\<rparr>,
              run_log = [c_string msg],
              run_files = [Validate filename, Loadfile filename], run_calls = []\<rparr>
         | None \<Rightarrow>
             sandbox_run_loaded fuel I w sandbox filename environment []
               (L0\<lparr>api_calls := Suc (api_calls L0),
                   stack := LFunction filename globals_ref # stack L0\<rparr>))"
    using sandbox_run_accepted [of w filename sandbox L0 fuel I environment] v
    by (simp split: option.splits)
  show ?thesis
    using e v r by (simp add: EOF_def BYTECODE_MAGIC_NUMBER_def)
qed

theorem empty_file_is_accepted_witness:
  "is_valid_lua_script (example_world []) ''script.lua'' = (1, []) \<and>
   sandbox_run 5 example_interp (example_world []) example_sandbox ''script.lua'' None =
     sandbox_run_loaded 5 example_interp (example_world []) example_sandbox
       ''script.lua'' None []
       ((new_state L_alloc_default)\<lparr>api_calls := 1,
          stack := [LFunction ''script.lua'' globals_ref]\<rparr>) \<and>
   run_status (sandbox_run 5 example_interp
     ((example_world [])\<lparr>loader := (\<lambda>name. Some (LUA_ERRFILE, ''cannot read script.lua''))\<rparr>)
     example_sandbox ''script.lua'' None) = Ret (- 1) \<and>
   run_log (sandbox_run 5 example_interp
     ((example_world [])\<lparr>loader := (\<lambda>name. Some (LUA_ERRFILE, ''cannot read script.lua''))\<rparr>)
     example_sandbox ''script.lua'' None) = [''cannot read script.lua'']"
  using empty_file_is_accepted
    [where w = "example_world []" and filename = "''script.lua''"
       and handle = "\<lparr>bytes = [], read_fails = False, close_fails = False\<rparr>"
       and fuel = 5 and I = example_interp and sandbox = example_sandbox
       and environment = None and ?L0.0 = "new_state L_alloc_default"]
    empty_file_is_accepted
    [where w = "(example_world [])\<lparr>loader :=
         (\<lambda>name. Some (LUA_ERRFILE, ''cannot read script.lua''))\<rparr>"
       and filename = "''script.lua''"
       and handle = "\<lparr>bytes = [], read_fails = False, close_fails = False\<rparr>"
       and fuel = 5 and I = example_interp and sandbox = example_sandbox
       and environment = None and ?L0.0 = "new_state L_alloc_default"]
  by (simp add: example_world_def example_sandbox_def new_state_def c_string_def)

section \<open>What a run depends on\<close>

lemma traceexec_files: "traceexec (w\<lparr>files := f\<rparr>) L position = traceexec w L position"
  by (simp add: traceexec_def call_hook_def exit_hook_def luaL_error_def
      split: option.splits lua_hook.splits)

lemma luaV_execute_files:
  "luaV_execute fuel I (w\<lparr>files := f\<rparr>) L s = luaV_execute fuel I w L s"
  by (induction fuel arbitrary: L s)
    (simp_all add: traceexec_files split: prod.splits option.splits insn.splits)

lemma lua_pcall_files: "lua_pcall fuel I (w\<lparr>files := f\<rparr>) L = lua_pcall fuel I w L"
  by (simp add: lua_pcall_def luaV_execute_files split: list.splits lua_value.splits)

lemma luaL_loadfile_files: "luaL_loadfile (w\<lparr>files := f\<rparr>) L name = luaL_loadfile w L name"
  by (simp add: luaL_loadfile_result)

lemma lua_newtable_files: "lua_newtable (w\<lparr>files := f\<rparr>) L = lua_newtable w L"
  by (simp add: lua_newtable_def lua_mem_def)

lemma sandbox_run_loaded_files:
  "sandbox_run_loaded fuel I (w\<lparr>files := f\<rparr>) sandbox filename environment vlog L =
   sandbox_run_loaded fuel I w sandbox filename environment vlog L"
  by (simp add: sandbox_run_loaded_def sandbox_run_environment_def sandbox_run_invoke_def
      lua_pcall_files luaL_loadfile_files lua_newtable_files
      cong: option.case_cong api.case_cong prod.case_cong if_cong)

lemma is_valid_lua_script_files:
  "f filename = files w filename \<Longrightarrow>
   is_valid_lua_script (w\<lparr>files := f\<rparr>) filename = is_valid_lua_script w filename"
  by (simp add: is_valid_lua_script_def Let_def split: option.splits)

lemma sandbox_run_files:
  "f filename = files w filename \<Longrightarrow>
   sandbox_run fuel I (w\<lparr>files := f\<rparr>) sandbox filename environment =
   sandbox_run fuel I w sandbox filename environment"
  by (simp add: sandbox_run_def is_valid_lua_script_files luaL_loadfile_files
      sandbox_run_loaded_files cong: option.case_cong api.case_cong prod.case_cong if_cong)

lemma is_valid_lua_script_loader:
  "is_valid_lua_script (w\<lparr>loader := l\<rparr>) filename = is_valid_lua_script w filename"
  by (simp add: is_valid_lua_script_def Let_def split: option.splits)

lemma sandbox_run_environment_load_error:
  assumes "loader w env = Some (st, msg)" and "\<not> oom w (api_calls L1)"
  shows "sandbox_run_environment fuel I w (Some env) L1 =
     (Ret (- 1), L1\<lparr>api_calls := Suc (api_calls L1), stack := LString msg # stack L1\<rparr>,
      [c_string msg], [Loadfile env], [])"
  using assms
  by (simp add: sandbox_run_environment_def luaL_loadfile_result status_code_nonzero
      lua_tostring_def fmt_s_LString)

lemma sandbox_run_environment_thrown:
  assumes "loader w env = None" and "\<not> oom w (api_calls L1)"
    and "luaV_execute fuel I w (L1\<lparr>api_calls := Suc (api_calls L1)\<rparr>)
           (i_start I env globals_ref (tables L1) (next_ref L1)) = (Thrown s st e, L')"
  shows "sandbox_run_environment fuel I w (Some env) L1 =
     (Ret (- 1),
      L'\<lparr>stack := e # stack L1, tables := fst (i_heap I s), next_ref := snd (i_heap I s)\<rparr>,
      [fmt_s (value_tostring e)], [Loadfile env],
      [(LFunction env globals_ref, tables L1 globals_ref)])"
  using assms
  by (simp add: sandbox_run_environment_def luaL_loadfile_result lua_pcall_def
      status_code_nonzero lua_tostring_def called_def)

text \<open>
  C6. The validation of the target comes before every load: a target the validator
  rejects ends the run with \<open>-1\<close> and the interpreter untouched, whatever the loader
  would say about any file. The environment file is never validated: a run does not
  depend on what the file system holds under the environment's name (its first byte
  included), as long as that is not also the target's name. It is handed to the loader,
  and what the loader says about it decides the run: a loader error ends the run with
  \<open>-1\<close> and the loader's message, and a chunk that compiles is executed (shown here for an
  execution that ends in an error: the error value is what the run logs).
\<close>

theorem sandbox_run_validates_target_only:
  "(fst (is_valid_lua_script w filename) = 0 \<longrightarrow>
      sandbox_run fuel I (w\<lparr>loader := l\<rparr>) sandbox filename environment =
        \<lparr>run_status = Ret (- 1), run_sandbox = sandbox,
         run_log = snd (is_valid_lua_script w filename),
         run_files = [Validate filename], run_calls = []\<rparr>) \<and>
   (env \<noteq> filename \<longrightarrow>
      sandbox_run fuel I (w\<lparr>files := (files w)(env := x)\<rparr>) sandbox filename (Some env) =
      sandbox_run fuel I w sandbox filename (Some env)) \<and>
   (fst (is_valid_lua_script w filename) \<noteq> 0 \<and> sandbox_L sandbox = Some L0 \<and>
    loader w filename = None \<and> \<not> oom w (api_calls L0) \<and>
    \<not> oom w (Suc (api_calls L0)) \<longrightarrow>
      (loader w env = Some (st, msg) \<longrightarrow>
         sandbox_run fuel I w sandbox filename (Some env) =
           \<lparr>run_status = Ret (- 1),
            run_sandbox = sandbox\<lparr>sandbox_L :=
              Some (L0\<lparr>api_calls := Suc (Suc (api_calls L0)),
                        stack := LString msg # LFunction filename globals_ref # stack L0\<rparr>)\<rparr>,
            run_log = snd (is_valid_lua_script w filename) @ [c_string msg],
            run_files = [Validate filename, Loadfile filename, Loadfile env],
            run_calls = []\<rparr>) \<and>
      (loader w env = None \<and>
       luaV_execute fuel I w
         (L0\<lparr>api_calls := Suc (Suc (api_calls L0)),
             stack := LFunction filename globals_ref # stack L0\<rparr>)
         (i_start I env globals_ref (tables L0) (next_ref L0)) = (Thrown s err e, L') \<longrightarrow>
         sandbox_run fuel I w sandbox filename (Some env) =
           \<lparr>run_status = Ret (- 1),
            run_sandbox = sandbox\<lparr>sandbox_L :=
              Some (L'\<lparr>stack := e # LFunction filename globals_ref # stack L0,
                        tables := fst (i_heap I s), next_ref := snd (i_heap I s)\<rparr>)\<rparr>,
            run_log = snd (is_valid_lua_script w filename) @ [fmt_s (value_tostring e)],
            run_files = [Validate filename, Loadfile filename, Loadfile env],
            run_calls = [(LFunction env globals_ref, tables L0 globals_ref)]\<rparr>))"
proof (intro conjI impI)
  assume "fst (is_valid_lua_script w filename) = 0"
  then show "sandbox_run fuel I (w\<lparr>loader := l\<rparr>) sandbox filename environment =
      \<lparr>run_status = Ret (- 1), run_sandbox = sandbox,
       run_log = snd (is_valid_lua_script w filename),
       run_files = [Validate filename], run_calls = []\<rparr>"
    using sandbox_run_rejected [of "w\<lparr>loader := l\<rparr>" filename fuel I sandbox environment]
    by (simp add: is_valid_lua_script_loader)
next
  assume "env \<noteq> filename"
  then show "sandbox_run fuel I (w\<lparr>files := (files w)(env := x)\<rparr>) sandbox filename
      (Some env) = sandbox_run fuel I w sandbox filename (Some env)"
    by (simp add: sandbox_run_files)
next
  assume a: "fst (is_valid_lua_script w filename) \<noteq> 0 \<and> sandbox_L sandbox = Some L0 \<and>
    loader w filename = None \<and> \<not> oom w (api_calls L0) \<and> \<not> oom w (Suc (api_calls L0))"
  assume b: "loader w env = Some (st, msg)"
  show "sandbox_run fuel I w sandbox filename (Some env) =
      \<lparr>run_status = Ret (- 1),
       run_sandbox = sandbox\<lparr>sandbox_L :=
         Some (L0\<lparr>api_calls := Suc (Suc (api_calls L0)),
                   stack := LString msg # LFunction filename globals_ref # stack L0\<rparr>)\<rparr>,
       run_log = snd (is_valid_lua_script w filename) @ [c_string msg],
       run_files = [Validate filename, Loadfile filename, Loadfile env],
       run_calls = []\<rparr>"
    using a b
    by (simp add: sandbox_run_accepted sandbox_run_loaded_def
        sandbox_run_environment_load_error)
next
  assume a: "fst (is_valid_lua_script w filename) \<noteq> 0 \<and> sandbox_L sandbox = Some L0 \<and>
    loader w filename = None \<and> \<not> oom w (api_calls L0) \<and> \<not> oom w (Suc (api_calls L0))"
  assume b: "loader w env = None \<and>
    luaV_execute fuel I w
      (L0\<lparr>api_calls := Suc (Suc (api_calls L0)),
          stack := LFunction filename globals_ref # stack L0\<rparr>)
      (i_start I env globals_ref (tables L0) (next_ref L0)) = (Thrown s err e, L')"
  have eq: "L0\<lparr>stack := LFunction filename globals_ref # stack L0,
               api_calls := Suc (Suc (api_calls L0))\<rparr> =
            L0\<lparr>api_calls := Suc (Suc (api_calls L0)),
               stack := LFunction filename globals_ref # stack L0\<rparr>"
    by simp
  show "sandbox_run fuel I w sandbox filename (Some env) =
      \<lparr>run_status = Ret (- 1),
       run_sandbox = sandbox\<lparr>sandbox_L :=
         Some (L'\<lparr>stack := e # LFunction filename globals_ref # stack L0,
                   tables := fst (i_heap I s), next_ref := snd (i_heap I s)\<rparr>)\<rparr>,
       run_log = snd (is_valid_lua_script w filename) @ [fmt_s (value_tostring e)],
       run_files = [Validate filename, Loadfile filename, Loadfile env],
       run_calls = [(LFunction env globals_ref, tables L0 globals_ref)]\<rparr>"
    using a b
      sandbox_run_environment_thrown
        [where w = w and env = env and fuel = fuel and I = I and s = s and st = err
           and e = e and L' = L'
           and ?L1.0 = "L0\<lparr>api_calls := Suc (api_calls L0),
                          stack := LFunction filename globals_ref # stack L0\<rparr>"]
    by (simp add: sandbox_run_accepted sandbox_run_loaded_def eq)
qed

theorem sandbox_run_validates_target_only_witness:
  "is_valid_lua_script (example_world [120, 61, 49]) ''env.lua'' =
     (0, [''for security, we do not evaluate Lua bytecode'']) \<and>
   run_status (sandbox_run 5 example_interp (example_world [27, 76, 117, 97])
     (limited_sandbox example_options) ''script.lua'' (Some ''env.lua'')) = Ret (- 1) \<and>
   sandbox_run 5 example_interp
     ((example_world [120, 61, 49])\<lparr>files := (files (example_world [120, 61, 49]))
        (''env.lua'' := None)\<rparr>)
     (limited_sandbox example_options) ''script.lua'' (Some ''env.lua'') =
   sandbox_run 5 example_interp (example_world [120, 61, 49])
     (limited_sandbox example_options) ''script.lua'' (Some ''env.lua'') \<and>
   run_log (sandbox_run 5 example_interp
     ((example_world [120, 61, 49])\<lparr>loader :=
        (\<lambda>name. if name = ''env.lua'' then Some (LUA_ERRSYNTAX, ''env.lua: bad header'')
                  else None)\<rparr>)
     (limited_sandbox example_options) ''script.lua'' (Some ''env.lua'')) =
     [''env.lua: bad header''] \<and>
   run_status (sandbox_run 5 example_interp (example_world [120, 61, 49])
     (limited_sandbox example_options) ''script.lua'' (Some ''env.lua'')) = Ret (- 1) \<and>
   run_log (sandbox_run 5 example_interp (example_world [120, 61, 49])
     (limited_sandbox example_options) ''script.lua'' (Some ''env.lua'')) =
     [''script.lua:1: instruction limit reached''] \<and>
   run_calls (sandbox_run 5 example_interp (example_world [120, 61, 49])
     (limited_sandbox example_options) ''script.lua'' (Some ''env.lua'')) =
     [(LFunction ''env.lua'' globals_ref, empty_table)]"
proof -
  define W where "W = example_world [120, 61, 49]"
  define W2 where "W2 = W\<lparr>loader :=
        (\<lambda>name. if name = ''env.lua'' then Some (LUA_ERRSYNTAX, ''env.lua: bad header'')
                  else None)\<rparr>"
  define L0 where "L0 = sandbox_init_hooks example_options (new_state L_alloc_default)"
  define L1 where "L1 = L0\<lparr>api_calls := Suc (Suc (api_calls L0)),
      stack := LFunction ''script.lua'' globals_ref # stack L0\<rparr>"
  define s0 where "s0 = i_start example_interp ''env.lua'' globals_ref (tables L0) (next_ref L0)"
  have a: "is_valid_lua_script W ''env.lua'' =
      (0, [''for security, we do not evaluate Lua bytecode''])"
    by (simp add: W_def example_world_def is_valid_lua_script_def fgetc_def
        BYTECODE_MAGIC_NUMBER_def)
  have r: "fst (is_valid_lua_script (example_world [27, 76, 117, 97]) ''script.lua'') = 0"
    by (simp add: example_world_def is_valid_lua_script_def fgetc_def
        BYTECODE_MAGIC_NUMBER_def)
  have b: "run_status (sandbox_run 5 example_interp (example_world [27, 76, 117, 97])
      (limited_sandbox example_options) ''script.lua'' (Some ''env.lua'')) = Ret (- 1)"
    using sandbox_run_validates_target_only
      [where w = "example_world [27, 76, 117, 97]" and filename = "''script.lua''"
         and l = "loader (example_world [27, 76, 117, 97])" and fuel = 5
         and I = example_interp and sandbox = "limited_sandbox example_options"
         and environment = "Some ''env.lua''", THEN conjunct1, THEN mp, OF r]
    by simp
  have n: "''env.lua'' \<noteq> ''script.lua''" by simp
  have c: "sandbox_run 5 example_interp (W\<lparr>files := (files W)(''env.lua'' := None)\<rparr>)
        (limited_sandbox example_options) ''script.lua'' (Some ''env.lua'') =
      sandbox_run 5 example_interp W (limited_sandbox example_options) ''script.lua''
        (Some ''env.lua'')"
    using sandbox_run_validates_target_only
      [where w = W and filename = "''script.lua''" and env = "''env.lua''" and x = None
         and fuel = 5 and I = example_interp and sandbox = "limited_sandbox example_options",
       THEN conjunct2, THEN conjunct1, THEN mp, OF n] .
  have v: "is_valid_lua_script W ''script.lua'' = (1, [])"
    by (simp add: W_def example_world_def is_valid_lua_script_def fgetc_def
        BYTECODE_MAGIC_NUMBER_def)
  have v2: "is_valid_lua_script W2 ''script.lua'' = (1, [])"
    using v by (simp add: W2_def is_valid_lua_script_loader)
  have h: "fst (is_valid_lua_script W ''script.lua'') \<noteq> 0 \<and>
      sandbox_L (limited_sandbox example_options) = Some L0 \<and>
      loader W ''script.lua'' = None \<and> \<not> oom W (api_calls L0) \<and>
      \<not> oom W (Suc (api_calls L0))"
    using v by (simp add: limited_sandbox_def L0_def W_def example_world_def)
  have h2: "fst (is_valid_lua_script W2 ''script.lua'') \<noteq> 0 \<and>
      sandbox_L (limited_sandbox example_options) = Some L0 \<and>
      loader W2 ''script.lua'' = None \<and> \<not> oom W2 (api_calls L0) \<and>
      \<not> oom W2 (Suc (api_calls L0))"
    using v2 by (simp add: limited_sandbox_def L0_def W2_def W_def example_world_def)
  have le: "loader W2 ''env.lua'' = Some (LUA_ERRSYNTAX, ''env.lua: bad header'')"
    by (simp add: W2_def)
  have d: "run_log (sandbox_run 5 example_interp W2 (limited_sandbox example_options)
      ''script.lua'' (Some ''env.lua'')) = [''env.lua: bad header'']"
    using sandbox_run_validates_target_only
      [where w = W2 and filename = "''script.lua''" and env = "''env.lua''"
         and fuel = 5 and I = example_interp and sandbox = "limited_sandbox example_options"
         and ?L0.0 = L0 and st = LUA_ERRSYNTAX and msg = "''env.lua: bad header''",
       THEN conjunct2, THEN conjunct2, THEN mp, OF h2, THEN conjunct1, THEN mp, OF le]
    by (simp add: v2 c_string_def)
  have hk: "hook L1 = Some Exit_hook" "hookmask L1 = 8" "hookcount L1 = 3"
    "basehookcount L1 = 3" "api_calls L1 = 2"
    by (simp_all add: L1_def L0_def sandbox_init_hooks_def example_options_def Let_def
        lua_sethook_def lua_atpanic_def new_state_def LUA_MASKCOUNT_def)
  have x: "luaV_execute 5 example_interp W L1 s0 =
      (Thrown 2 LUA_ERRRUN (LString ''script.lua:1: instruction limit reached''),
       snd (luaV_execute 5 example_interp W L1 s0))"
    by (simp add: eval_nat_numeral traceexec_def call_hook_def exit_hook_def luaL_error_def
        hk s0_def example_interp_def LUA_MASKCOUNT_def LUA_HOOKCOUNT_def W_def
        example_world_def)
  have y: "loader W ''env.lua'' = None \<and>
      luaV_execute 5 example_interp W
        (L0\<lparr>api_calls := Suc (Suc (api_calls L0)),
            stack := LFunction ''script.lua'' globals_ref # stack L0\<rparr>)
        (i_start example_interp ''env.lua'' globals_ref (tables L0) (next_ref L0)) =
      (Thrown 2 LUA_ERRRUN (LString ''script.lua:1: instruction limit reached''),
       snd (luaV_execute 5 example_interp W L1 s0))"
    using x by (simp add: L1_def s0_def W_def example_world_def)
  have t: "tables L0 globals_ref = empty_table"
    by (simp add: L0_def sandbox_init_hooks_def Let_def lua_sethook_def lua_atpanic_def
        new_state_def)
  have e: "sandbox_run 5 example_interp W (limited_sandbox example_options) ''script.lua''
        (Some ''env.lua'') =
      \<lparr>run_status = Ret (- 1),
       run_sandbox = (limited_sandbox example_options)\<lparr>sandbox_L :=
         Some ((snd (luaV_execute 5 example_interp W L1 s0))
           \<lparr>stack := LString ''script.lua:1: instruction limit reached'' #
                      LFunction ''script.lua'' globals_ref # stack L0,
            tables := fst (i_heap example_interp 2),
            next_ref := snd (i_heap example_interp 2)\<rparr>)\<rparr>,
       run_log = snd (is_valid_lua_script W ''script.lua'') @
         [fmt_s (value_tostring (LString ''script.lua:1: instruction limit reached''))],
       run_files = [Validate ''script.lua'', Loadfile ''script.lua'', Loadfile ''env.lua''],
       run_calls = [(LFunction ''env.lua'' globals_ref, tables L0 globals_ref)]\<rparr>"
    using sandbox_run_validates_target_only
      [where w = W and filename = "''script.lua''" and env = "''env.lua''"
         and fuel = 5 and I = example_interp and sandbox = "limited_sandbox example_options"
         and ?L0.0 = L0,
       THEN conjunct2, THEN conjunct2, THEN mp, OF h, THEN conjunct2, THEN mp, OF y] .
  show ?thesis
    using a b c d e
    by (simp add: v t fmt_s_LString c_string_def W_def [symmetric] W2_def [symmetric])
qed

lemma sandbox_run_no_environment:
  assumes "fst (is_valid_lua_script w filename) \<noteq> 0" and "sandbox_L sandbox = Some L0"
    and "loader w filename = None" and "\<not> oom w (api_calls L0)"
    and "\<not> oom w (Suc (api_calls L0))"
  shows "sandbox_run fuel I w sandbox filename None =
     (case sandbox_run_invoke fuel I w filename
             (L0\<lparr>stack := LTable (next_ref L0) # LFunction filename globals_ref # stack L0,
                 tables := (tables L0)(next_ref L0 := empty_table),
                 next_ref := Suc (next_ref L0),
                 api_calls := Suc (Suc (api_calls L0))\<rparr>) of
        (st2, L5, ilog, icalls) \<Rightarrow>
          \<lparr>run_status = st2, run_sandbox = sandbox\<lparr>sandbox_L := Some L5\<rparr>,
           run_log = snd (is_valid_lua_script w filename) @ ilog,
           run_files = [Validate filename, Loadfile filename], run_calls = icalls\<rparr>)"
proof -
  have n: "lua_newtable w (L0\<lparr>api_calls := Suc (api_calls L0),
                               stack := LFunction filename globals_ref # stack L0\<rparr>) =
      Done (L0\<lparr>stack := LTable (next_ref L0) # LFunction filename globals_ref # stack L0,
                tables := (tables L0)(next_ref L0 := empty_table),
                next_ref := Suc (next_ref L0),
                api_calls := Suc (Suc (api_calls L0))\<rparr>)"
    using assms(5) by (simp add: lua_newtable_def lua_mem_def api_bind_def)
  show ?thesis
    using assms
    by (simp add: sandbox_run_accepted sandbox_run_loaded_def sandbox_run_environment_def n)
qed

lemma sandbox_run_invoke_chunk:
  assumes "stack L = LTable r # LFunction f g # rest"
  shows "sandbox_run_invoke fuel I w filename L =
     (case luaV_execute fuel I w (L\<lparr>stack := rest\<rparr>)
             (i_start I f r (tables L) (next_ref L)) of
        (Returned s v, L') \<Rightarrow>
          (Ret 0,
           L'\<lparr>stack := v # rest, tables := fst (i_heap I s), next_ref := snd (i_heap I s)\<rparr>,
           [], [(LFunction f r, tables L r)])
      | (Thrown s st e, L') \<Rightarrow>
          (Ret (- 1),
           L'\<lparr>stack := e # rest, tables := fst (i_heap I s), next_ref := snd (i_heap I s)\<rparr>,
           [''error running '' @ filename @ '': '' @ fmt_s (value_tostring e)],
           [(LFunction f r, tables L r)])
      | (Running, L') \<Rightarrow>
          (Hang, L\<lparr>stack := LFunction f r # rest\<rparr>, [], [(LFunction f r, tables L r)]))"
  using assms
  by (simp add: sandbox_run_invoke_def lua_setfenv_def lua_pcall_def called_def
      status_code_nonzero lua_tostring_def split: prod.splits exec.splits)

text \<open>
  C8. With no environment file, a target that passes the validator and compiles, and an
  interpreter that has the memory for the two calls: \<^verbatim>\<open>lua_newtable\<close> creates a table
  under the next reference the interpreter has to give, \<open>next_ref L0\<close>; it is empty
  (every field is nil); \<^verbatim>\<open>lua_setfenv\<close> makes it the environment of the target chunk, and
  the protected call executes the chunk started with that reference as its environment,
  on the tables that hold the empty table there. What the run returns is what this
  execution gives. When the interpreter is refused the memory for the table, the error is
  raised outside a protected call and the run does not return.
\<close>

theorem sandbox_run_default_environment:
  assumes "fst (is_valid_lua_script w filename) \<noteq> 0" and "sandbox_L sandbox = Some L0"
    and "loader w filename = None" and "\<not> oom w (api_calls L0)"
  shows "((tables L0)(next_ref L0 := empty_table)) (next_ref L0) k = LNil \<and>
    (oom w (Suc (api_calls L0)) \<longrightarrow>
       run_status (sandbox_run fuel I w sandbox filename None) = Abort) \<and>
    (\<not> oom w (Suc (api_calls L0)) \<longrightarrow>
       sandbox_run fuel I w sandbox filename None =
         (case luaV_execute fuel I w
                 (L0\<lparr>tables := (tables L0)(next_ref L0 := empty_table),
                     next_ref := Suc (next_ref L0),
                     api_calls := Suc (Suc (api_calls L0))\<rparr>)
                 (i_start I filename (next_ref L0)
                    ((tables L0)(next_ref L0 := empty_table)) (Suc (next_ref L0))) of
            (Returned s v, L') \<Rightarrow>
              \<lparr>run_status = Ret 0,
               run_sandbox = sandbox\<lparr>sandbox_L :=
                 Some (L'\<lparr>stack := v # stack L0, tables := fst (i_heap I s),
                           next_ref := snd (i_heap I s)\<rparr>)\<rparr>,
               run_log = snd (is_valid_lua_script w filename),
               run_files = [Validate filename, Loadfile filename],
               run_calls = [(LFunction filename (next_ref L0), empty_table)]\<rparr>
          | (Thrown s st e, L') \<Rightarrow>
              \<lparr>run_status = Ret (- 1),
               run_sandbox = sandbox\<lparr>sandbox_L :=
                 Some (L'\<lparr>stack := e # stack L0, tables := fst (i_heap I s),
                           next_ref := snd (i_heap I s)\<rparr>)\<rparr>,
               run_log = snd (is_valid_lua_script w filename) @
                 [''error running '' @ filename @ '': '' @ fmt_s (value_tostring e)],
               run_files = [Validate filename, Loadfile filename],
               run_calls = [(LFunction filename (next_ref L0), empty_table)]\<rparr>
          | (Running, L') \<Rightarrow>
              \<lparr>run_status = Hang,
               run_sandbox = sandbox\<lparr>sandbox_L :=
                 Some (L0\<lparr>stack := LFunction filename (next_ref L0) # stack L0,
                           tables := (tables L0)(next_ref L0 := empty_table),
                           next_ref := Suc (next_ref L0),
                           api_calls := Suc (Suc (api_calls L0))\<rparr>)\<rparr>,
               run_log = snd (is_valid_lua_script w filename),
               run_files = [Validate filename, Loadfile filename],
               run_calls = [(LFunction filename (next_ref L0), empty_table)]\<rparr>))"
proof (intro conjI impI)
  show "((tables L0)(next_ref L0 := empty_table)) (next_ref L0) k = LNil"
    by (simp add: empty_table_def)
next
  assume "oom w (Suc (api_calls L0))"
  then show "run_status (sandbox_run fuel I w sandbox filename None) = Abort"
    using assms
    by (simp add: sandbox_run_accepted sandbox_run_loaded_def sandbox_run_environment_def
        lua_newtable_def lua_mem_def api_bind_def)
next
  assume o: "\<not> oom w (Suc (api_calls L0))"
  define L2 where
    "L2 = L0\<lparr>stack := LTable (next_ref L0) # LFunction filename globals_ref # stack L0,
             tables := (tables L0)(next_ref L0 := empty_table),
             next_ref := Suc (next_ref L0),
             api_calls := Suc (Suc (api_calls L0))\<rparr>"
  have s: "stack L2 = LTable (next_ref L0) # LFunction filename globals_ref # stack L0"
    by (simp add: L2_def)
  have eq: "L2\<lparr>stack := stack L0\<rparr> =
      L0\<lparr>tables := (tables L0)(next_ref L0 := empty_table),
         next_ref := Suc (next_ref L0), api_calls := Suc (Suc (api_calls L0))\<rparr>"
    by (simp add: L2_def)
  have eq2: "L2\<lparr>stack := LFunction filename (next_ref L0) # stack L0\<rparr> =
      L0\<lparr>stack := LFunction filename (next_ref L0) # stack L0,
         tables := (tables L0)(next_ref L0 := empty_table),
         next_ref := Suc (next_ref L0), api_calls := Suc (Suc (api_calls L0))\<rparr>"
    by (simp add: L2_def)
  have f: "tables L2 = (tables L0)(next_ref L0 := empty_table)"
    "next_ref L2 = Suc (next_ref L0)"
    by (simp_all add: L2_def)
  show "sandbox_run fuel I w sandbox filename None =
         (case luaV_execute fuel I w
                 (L0\<lparr>tables := (tables L0)(next_ref L0 := empty_table),
                     next_ref := Suc (next_ref L0),
                     api_calls := Suc (Suc (api_calls L0))\<rparr>)
                 (i_start I filename (next_ref L0)
                    ((tables L0)(next_ref L0 := empty_table)) (Suc (next_ref L0))) of
            (Returned s v, L') \<Rightarrow>
              \<lparr>run_status = Ret 0,
               run_sandbox = sandbox\<lparr>sandbox_L :=
                 Some (L'\<lparr>stack := v # stack L0, tables := fst (i_heap I s),
                           next_ref := snd (i_heap I s)\<rparr>)\<rparr>,
               run_log = snd (is_valid_lua_script w filename),
               run_files = [Validate filename, Loadfile filename],
               run_calls = [(LFunction filename (next_ref L0), empty_table)]\<rparr>
          | (Thrown s st e, L') \<Rightarrow>
              \<lparr>run_status = Ret (- 1),
               run_sandbox = sandbox\<lparr>sandbox_L :=
                 Some (L'\<lparr>stack := e # stack L0, tables := fst (i_heap I s),
                           next_ref := snd (i_heap I s)\<rparr>)\<rparr>,
               run_log = snd (is_valid_lua_script w filename) @
                 [''error running '' @ filename @ '': '' @ fmt_s (value_tostring e)],
               run_files = [Validate filename, Loadfile filename],
               run_calls = [(LFunction filename (next_ref L0), empty_table)]\<rparr>
          | (Running, L') \<Rightarrow>
              \<lparr>run_status = Hang,
               run_sandbox = sandbox\<lparr>sandbox_L :=
                 Some (L0\<lparr>stack := LFunction filename (next_ref L0) # stack L0,
                           tables := (tables L0)(next_ref L0 := empty_table),
                           next_ref := Suc (next_ref L0),
                           api_calls := Suc (Suc (api_calls L0))\<rparr>)\<rparr>,
               run_log = snd (is_valid_lua_script w filename),
               run_files = [Validate filename, Loadfile filename],
               run_calls = [(LFunction filename (next_ref L0), empty_table)]\<rparr>)"
    unfolding sandbox_run_no_environment [OF assms o] L2_def [symmetric]
      sandbox_run_invoke_chunk [OF s] eq eq2 f
    by (simp split: prod.splits exec.splits)
qed

theorem sandbox_run_default_environment_witness:
  "run_status (sandbox_run 10 catching_interp (example_world [120, 61, 49]) example_sandbox
     ''script.lua'' None) = Ret 0 \<and>
   run_calls (sandbox_run 10 catching_interp (example_world [120, 61, 49]) example_sandbox
     ''script.lua'' None) = [(LFunction ''script.lua'' 1, empty_table)] \<and>
   map_option stack (sandbox_L (run_sandbox (sandbox_run 10 catching_interp
     (example_world [120, 61, 49]) example_sandbox ''script.lua'' None))) = Some [LNil] \<and>
   run_status (sandbox_run 10 catching_interp
     ((example_world [120, 61, 49])\<lparr>oom := (\<lambda>k. k = 1)\<rparr>) example_sandbox
     ''script.lua'' None) = Abort"
proof -
  define W where "W = example_world [120, 61, 49]"
  define L0 where "L0 = new_state L_alloc_default"
  have v: "is_valid_lua_script W ''script.lua'' = (1, [])"
    by (simp add: W_def example_world_def is_valid_lua_script_def fgetc_def
        BYTECODE_MAGIC_NUMBER_def)
  have v2: "is_valid_lua_script (W\<lparr>oom := (\<lambda>k. k = 1)\<rparr>) ''script.lua'' = (1, [])"
    by (simp add: W_def example_world_def is_valid_lua_script_def fgetc_def
        BYTECODE_MAGIC_NUMBER_def)
  have h1: "fst (is_valid_lua_script W ''script.lua'') \<noteq> 0" using v by simp
  have h2: "sandbox_L example_sandbox = Some L0" by (simp add: example_sandbox_def L0_def)
  have h3: "loader W ''script.lua'' = None" by (simp add: W_def example_world_def)
  have h4: "\<not> oom W (api_calls L0)" by (simp add: W_def example_world_def)
  have h5: "\<not> oom W (Suc (api_calls L0))" by (simp add: W_def example_world_def)
  have g1: "fst (is_valid_lua_script (W\<lparr>oom := (\<lambda>k. k = 1)\<rparr>) ''script.lua'') \<noteq> 0"
    using v2 by simp
  have g3: "loader (W\<lparr>oom := (\<lambda>k. k = 1)\<rparr>) ''script.lua'' = None"
    by (simp add: W_def example_world_def)
  have g4: "\<not> oom (W\<lparr>oom := (\<lambda>k. k = 1)\<rparr>) (api_calls L0)"
    by (simp add: L0_def new_state_def)
  have g5: "oom (W\<lparr>oom := (\<lambda>k. k = 1)\<rparr>) (Suc (api_calls L0))"
    by (simp add: L0_def new_state_def)
  have x: "luaV_execute 10 catching_interp W
      (L0\<lparr>tables := (tables L0)(next_ref L0 := empty_table),
          next_ref := Suc (next_ref L0), api_calls := Suc (Suc (api_calls L0))\<rparr>)
      (i_start catching_interp ''script.lua'' (next_ref L0)
         ((tables L0)(next_ref L0 := empty_table)) (Suc (next_ref L0))) =
      (Returned 5 LNil,
       L0\<lparr>tables := (tables L0)(next_ref L0 := empty_table),
          next_ref := Suc (next_ref L0), api_calls := Suc (Suc (api_calls L0))\<rparr>)"
    by (simp add: eval_nat_numeral traceexec_def catching_interp_def L0_def new_state_def)
  have a: "sandbox_run 10 catching_interp W example_sandbox ''script.lua'' None =
      \<lparr>run_status = Ret 0,
       run_sandbox = example_sandbox\<lparr>sandbox_L :=
         Some (L0\<lparr>stack := LNil # stack L0, tables := fst (i_heap catching_interp 5),
                   next_ref := snd (i_heap catching_interp 5),
                   api_calls := Suc (Suc (api_calls L0))\<rparr>)\<rparr>,
       run_log = snd (is_valid_lua_script W ''script.lua''),
       run_files = [Validate ''script.lua'', Loadfile ''script.lua''],
       run_calls = [(LFunction ''script.lua'' (next_ref L0), empty_table)]\<rparr>"
    using sandbox_run_default_environment
      [where w = W and filename = "''script.lua''" and sandbox = example_sandbox
         and ?L0.0 = L0 and fuel = 10 and I = catching_interp,
       OF h1 h2 h3 h4, THEN conjunct2, THEN conjunct2, THEN mp, OF h5]
    by (simp add: x)
  have b: "run_status (sandbox_run 10 catching_interp (W\<lparr>oom := (\<lambda>k. k = 1)\<rparr>)
      example_sandbox ''script.lua'' None) = Abort"
    using sandbox_run_default_environment
      [where w = "W\<lparr>oom := (\<lambda>k. k = 1)\<rparr>" and filename = "''script.lua''"
         and sandbox = example_sandbox and ?L0.0 = L0 and fuel = 10 and I = catching_interp,
       OF g1 h2 g3 g4, THEN conjunct2, THEN conjunct1, THEN mp, OF g5] .
  show ?thesis
    using a b by (simp add: W_def [symmetric] L0_def new_state_def globals_ref_def)
qed

text \<open>
  C9. The claim is that every failure path logs a message. It does not hold for a target
  whose first byte is 0: \<^verbatim>\<open>is_valid_lua_script\<close> returns 0 without a call of
  \<^verbatim>\<open>log_error\<close>, and \<^verbatim>\<open>sandbox_run\<close> returns \<open>-1\<close> with nothing logged, where the other
  three rejections of the validator each log their reason.
\<close>

theorem zero_byte_rejection_is_silent:
  "sandbox_run fuel I
     (w\<lparr>files := (files w)(filename :=
           Some \<lparr>bytes = 0 # rest, read_fails = False, close_fails = False\<rparr>)\<rparr>)
     sandbox filename environment =
     \<lparr>run_status = Ret (- 1), run_sandbox = sandbox, run_log = [],
      run_files = [Validate filename], run_calls = []\<rparr>"
  by (simp add: sandbox_run_def is_valid_lua_script_def fgetc_def)

section \<open>The path extender\<close>

lemma sint_word_of_nat_int:
  "n < 2 ^ 31 \<Longrightarrow> sint (word_of_nat n :: 32 word) = int n"
proof -
  assume n: "n < 2 ^ 31"
  have "(word_of_nat n :: 32 word) = word_of_int (int n)" by simp
  then have "sint (word_of_nat n :: 32 word) = signed_take_bit 31 (int n)"
    by (simp only: sint_sbintrunc') simp
  also have "\<dots> = int n"
    using n by (intro signed_take_bit_int_eq_self) simp_all
  finally show ?thesis .
qed

lemma snprintf_fits:
  assumes "length s + 1 < 2 ^ 31"
  shows "snprintf (sint (word_of_nat (length s + 1) :: 32 word)) s = s"
proof -
  have a: "sint (word_of_nat (length s + 1) :: 32 word) = int (length s + 1)"
    using assms by (rule sint_word_of_nat_int)
  have "int (length s + 1) < 2 ^ 64" using assms by simp
  then have "int (length s + 1) mod 2 ^ 64 = int (length s + 1)"
    by (intro mod_pos_pos_trivial) simp_all
  then have "nat (int (length s + 1) mod 2 ^ 64) - 1 = length s" by simp
  then show ?thesis unfolding snprintf_def a by simp
qed

lemma at_panic_simps:
  "at_panic (L\<lparr>stack := st\<rparr>) e = at_panic L e"
  "at_panic (L\<lparr>tables := tb\<rparr>) e = at_panic L e"
  "at_panic (L\<lparr>next_ref := nr\<rparr>) e = at_panic L e"
  "at_panic (L\<lparr>api_calls := k\<rparr>) e = at_panic L e"
  by (simp_all add: at_panic_def)

lemma prepend_package_path_result:
  assumes "tables L globals_ref ''package'' = LTable p"
    and "tables L p ''path'' = LString cur" and "c_string cur = cur"
    and "length cur + length new_entry + 2 < 2 ^ 31"
  shows "prepend_package_path w L new_entry =
     (if oom w (api_calls L) then (Abort, L, at_panic L (LString ''not enough memory''))
      else if oom w (Suc (api_calls L)) then
        (Abort, L\<lparr>stack := LTable p # stack L, api_calls := Suc (api_calls L)\<rparr>,
         at_panic L (LString ''not enough memory''))
      else if malloc_fails w then
        (Ret (- 1),
         L\<lparr>stack := LString cur # LTable p # stack L,
            api_calls := Suc (Suc (api_calls L))\<rparr>, [])
      else if oom w (Suc (Suc (api_calls L))) then
        (Abort, L\<lparr>stack := LTable p # stack L, api_calls := Suc (Suc (api_calls L))\<rparr>,
         at_panic L (LString ''not enough memory''))
      else if oom w (Suc (Suc (Suc (api_calls L)))) then
        (Abort,
         L\<lparr>stack := LString (new_entry @ '';'' @ cur) # LTable p # stack L,
            api_calls := Suc (Suc (Suc (api_calls L)))\<rparr>,
         at_panic L (LString ''not enough memory''))
      else
        (Ret 0,
         L\<lparr>tables := (tables L)
              (p := (tables L p)(''path'' := LString (new_entry @ '';'' @ cur))),
            api_calls := Suc (Suc (Suc (Suc (api_calls L))))\<rparr>, []))"
proof -
  have l: "length cur + length new_entry + 1 + 1 = length (new_entry @ '';'' @ cur) + 1"
    by simp
  have b: "length cur + length new_entry + 1 + 1 < 2 ^ 31" using assms(4) by simp
  have n: "sint (word_of_nat (length cur + length new_entry + 1 + 1) :: 32 word) =
      int (length cur + length new_entry + 1 + 1)"
    using b by (rule sint_word_of_nat_int)
  have f: "snprintf (sint (word_of_nat (length cur + length new_entry + 1 + 1) :: 32 word))
      (new_entry @ '';'' @ cur) = new_entry @ '';'' @ cur"
    unfolding l by (rule snprintf_fits) (use assms(4) in simp)
  show ?thesis
    using assms(1,2,3) n f
    by (simp add: prepend_package_path_def Let_def api_then_def lua_getglobal_def
        lua_getfield_def lua_mem_def api_bind_def lua_tostring_def value_tostring_def
        lua_pop_def lua_pushstring_def lua_setfield_def at_panic_simps)
qed

lemma sandbox_init_path_result:
  assumes "tables L globals_ref ''package'' = LTable p"
    and "tables L p ''path'' = LString cur" and "c_string cur = cur"
    and "length cur + length (luasrc_dir options) + 8 < 2 ^ 31"
  shows "fst (sandbox_init_path w options L) =
           (if sprintf_malloc_fails w then Ret (- 1)
            else if oom w (api_calls L) \<or> oom w (Suc (api_calls L)) then Abort
            else if malloc_fails w then Ret (- 1)
            else if oom w (Suc (Suc (api_calls L))) \<or>
                    oom w (Suc (Suc (Suc (api_calls L)))) then Abort
            else Ret 0) \<and>
         package_path (fst (snd (sandbox_init_path w options L))) =
           (if fst (sandbox_init_path w options L) = Ret 0
            then LString (luasrc_dir options @ ''/?.lua;'' @ cur)
            else LString cur) \<and>
         (fst (sandbox_init_path w options L) \<noteq> Ret 0 \<longrightarrow>
            tables (fst (snd (sandbox_init_path w options L))) = tables L) \<and>
         (fst (sandbox_init_path w options L) = Abort \<longrightarrow>
            snd (snd (sandbox_init_path w options L)) =
              at_panic L (LString ''not enough memory''))"
proof -
  have b: "length cur + length (luasrc_dir options @ ''/?.lua'') + 2 < 2 ^ 31"
    using assms(4) by simp
  note r = prepend_package_path_result [OF assms(1,2,3) b, of w]
  show ?thesis
    using assms(1,2)
    by (simp add: sandbox_init_path_def sprintf_malloc_def r package_path_def)
qed

text \<open>
  C7, as the code has it. On an interpreter whose \<^verbatim>\<open>package.path\<close> is the string \<open>cur\<close> (a
  C string, as the package library sets it; the new path shorter than \<open>2^31\<close> bytes), the
  path extension of \<^verbatim>\<open>sandbox_init\<close> ends in one of three ways. When none of its
  allocations fails it returns 0 and the path is the new entry, a semicolon and the old
  path: \<open>luasrc_dir @ ''/?.lua;'' @ cur\<close>. When one of its two C allocations
  (\<^verbatim>\<open>sprintf_malloc\<close>, \<^verbatim>\<open>malloc\<close>) fails it returns \<open>-1\<close>. When the interpreter is refused
  memory in one of the four API calls (the third allocation of the string, in
  \<^verbatim>\<open>lua_pushstring\<close>, among them), the memory error is raised outside a protected call:
  the panic function logs it and the host ends, no error is returned. Whenever the
  extension does not return 0, the path, as every table of the interpreter, is what it
  was.
\<close>

theorem path_extender:
  assumes "tables L globals_ref ''package'' = LTable p"
    and "tables L p ''path'' = LString cur" and "c_string cur = cur"
    and "length cur + length (luasrc_dir options) + 8 < 2 ^ 31"
  shows "fst (sandbox_init_path w options L) =
           (if sprintf_malloc_fails w then Ret (- 1)
            else if oom w (api_calls L) \<or> oom w (Suc (api_calls L)) then Abort
            else if malloc_fails w then Ret (- 1)
            else if oom w (Suc (Suc (api_calls L))) \<or>
                    oom w (Suc (Suc (Suc (api_calls L)))) then Abort
            else Ret 0) \<and>
         package_path (fst (snd (sandbox_init_path w options L))) =
           (if fst (sandbox_init_path w options L) = Ret 0
            then LString (luasrc_dir options @ ''/?.lua;'' @ cur)
            else LString cur) \<and>
         (fst (sandbox_init_path w options L) \<noteq> Ret 0 \<longrightarrow>
            tables (fst (snd (sandbox_init_path w options L))) = tables L) \<and>
         (fst (sandbox_init_path w options L) = Abort \<longrightarrow>
            snd (snd (sandbox_init_path w options L)) =
              at_panic L (LString ''not enough memory''))"
  using sandbox_init_path_result [OF assms] .

theorem path_extender_witness:
  "fst (sandbox_init_path (example_world []) example_options opened_state) = Ret 0 \<and>
   package_path (fst (snd (sandbox_init_path (example_world []) example_options
     opened_state))) = LString ''luasrc/?.lua;./?.lua'' \<and>
   fst (sandbox_init_path ((example_world [])\<lparr>malloc_fails := True\<rparr>) example_options
     opened_state) = Ret (- 1) \<and>
   package_path (fst (snd (sandbox_init_path ((example_world [])\<lparr>malloc_fails := True\<rparr>)
     example_options opened_state))) = LString ''./?.lua'' \<and>
   fst (sandbox_init_path (refusing_world 3) example_options opened_state) = Abort \<and>
   package_path (fst (snd (sandbox_init_path (refusing_world 3) example_options
     opened_state))) = LString ''./?.lua''"
proof -
  have o: "opened_state =
      (new_state L_alloc_default)\<lparr>tables := (tables (new_state L_alloc_default))
          (1 := empty_table(''path'' := LString ''./?.lua''),
           globals_ref := empty_table(''package'' := LTable 1)),
        next_ref := 2, panicf := Some Panic_sandbox, api_calls := 1\<rparr>"
    by (simp add: opened_state_def luaL_openlibs_def lua_mem_def api_bind_def example_world_def
        lua_atpanic_def new_state_def globals_ref_def c_string_def)
  have h1: "tables opened_state globals_ref ''package'' = LTable 1"
    by (simp add: o globals_ref_def)
  have h2: "tables opened_state 1 ''path'' = LString ''./?.lua''"
    by (simp add: o globals_ref_def)
  have h3: "c_string ''./?.lua'' = ''./?.lua''" by (simp add: c_string_def)
  have h4: "length ''./?.lua'' + length (luasrc_dir example_options) + 8 < 2 ^ 31"
    by (simp add: example_options_def)
  have k: "api_calls opened_state = 1" by (simp add: o)
  show ?thesis
    using path_extender [OF h1 h2 h3 h4, of "example_world []"]
      path_extender [OF h1 h2 h3 h4, of "(example_world [])\<lparr>malloc_fails := True\<rparr>"]
      path_extender [OF h1 h2 h3 h4, of "refusing_world 3"]
    by (simp add: k example_world_def refusing_world_def example_options_def)
qed

text \<open>
  C7, as the spec states it, says that the extension fails only by returning an error.
  It does not when the interpreter is refused the memory for the new path: in the world
  where its third allocating call of the extension is refused (the \<^verbatim>\<open>lua_pushstring\<close> of
  line 120), with both C allocations succeeding, the extension does not return: the
  panic function logs the memory error and the host ends. The same happens in a whole
  \<^verbatim>\<open>sandbox_init\<close>, where that call is the ninth.
\<close>

theorem path_extender_memory_error_ends_host:
  "sprintf_malloc_fails (refusing_world 3) = False \<and>
   malloc_fails (refusing_world 3) = False \<and>
   fst (sandbox_init_path (refusing_world 3) example_options opened_state) = Abort \<and>
   snd (snd (sandbox_init_path (refusing_world 3) example_options opened_state)) =
     [''PANIC: unprotected error in call to Lua API (not enough memory)''] \<and>
   init_status (sandbox_init (refusing_world 8) \<lparr>sandbox_L = None, available_memory = 0\<rparr>
     ''probe'' example_options) = Abort \<and>
   init_log (sandbox_init (refusing_world 8) \<lparr>sandbox_L = None, available_memory = 0\<rparr>
     ''probe'' example_options) =
     [''PANIC: unprotected error in call to Lua API (not enough memory)'']"
  by code_simp

text \<open>
  Inside \<^verbatim>\<open>sandbox_init\<close> the condition on \<^verbatim>\<open>package.path\<close> holds: \<^verbatim>\<open>luaL_openlibs\<close> has set
  it. So a \<^verbatim>\<open>sandbox_init\<close> that returns 0 leaves the extended path behind.
\<close>

lemma c_string_idem: "c_string (c_string s) = c_string s"
  by (simp add: c_string_def)

lemma sandbox_init_globals_path:
  assumes "next_ref L2 \<noteq> globals_ref"
    and "length (c_string (lua_path w)) + length (luasrc_dir options) + 8 < 2 ^ 31"
    and ok: "fst (sandbox_init_globals w name options L2) = Ret 0"
  shows "package_path (fst (snd (sandbox_init_globals w name options L2))) =
           LString (luasrc_dir options @ ''/?.lua;'' @ c_string (lua_path w))"
proof -
  have "\<exists>L8. sandbox_init_globals w name options L2 = sandbox_init_path w options L8 \<and>
      tables L8 globals_ref ''package'' = LTable (next_ref L2) \<and>
      tables L8 (next_ref L2) ''path'' = LString (c_string (lua_path w))"
    using ok assms(1)
    apply (simp add: sandbox_init_globals_def api_then_def luaL_openlibs_def
        lua_pushstring_def lua_setglobal_def lua_newtable_def censorscope_options_lua_def
        lua_mem_def api_bind_def globals_ref_def split: if_splits)
    apply (intro exI conjI)
      apply (rule refl)
     apply simp_all
    done
  then obtain L8 where
    g: "sandbox_init_globals w name options L2 = sandbox_init_path w options L8"
    and p: "tables L8 globals_ref ''package'' = LTable (next_ref L2)"
    and q: "tables L8 (next_ref L2) ''path'' = LString (c_string (lua_path w))"
    by blast
  note r = sandbox_init_path_result [OF p q c_string_idem assms(2), of w]
  have "fst (sandbox_init_path w options L8) = Ret 0" using ok g by simp
  then show ?thesis using r g by simp
qed

lemma sandbox_init_hooks_next_ref: "next_ref (sandbox_init_hooks options L0) = next_ref L0"
  by (simp add: sandbox_init_hooks_def Let_def lua_sethook_def lua_atpanic_def)

lemma sandbox_init_extends_path:
  assumes ok: "init_status (sandbox_init w sandbox name options) = Ret 0"
    and len: "length (c_string (lua_path w)) + length (luasrc_dir options) + 8 < 2 ^ 31"
  shows "\<exists>L. sandbox_L (init_sandbox (sandbox_init w sandbox name options)) = Some L \<and>
       package_path L = LString (luasrc_dir options @ ''/?.lua;'' @ c_string (lua_path w))"
proof (cases "sandbox_L (sandbox_init_state w sandbox options)")
  case None
  then show ?thesis using ok by (simp add: sandbox_init_def)
next
  case (Some L0)
  have "next_ref L0 = Suc globals_ref"
    using Some
    by (auto simp: sandbox_init_state_def lua_newstate_def luaL_newstate_def new_state_def
        lua_atpanic_def split: if_splits)
  then have n: "next_ref (sandbox_init_hooks options L0) \<noteq> globals_ref"
    by (simp add: sandbox_init_hooks_next_ref globals_ref_def)
  obtain st L9 msgs where
    g: "sandbox_init_globals w name options (sandbox_init_hooks options L0) = (st, L9, msgs)"
    by (cases "sandbox_init_globals w name options (sandbox_init_hooks options L0)") auto
  have r: "init_status (sandbox_init w sandbox name options) = st \<and>
           sandbox_L (init_sandbox (sandbox_init w sandbox name options)) = Some L9"
    using Some g by (simp add: sandbox_init_def)
  then have "st = Ret 0" using ok by simp
  then have "package_path L9 =
      LString (luasrc_dir options @ ''/?.lua;'' @ c_string (lua_path w))"
    using sandbox_init_globals_path [OF n len, of name] g by simp
  with r show ?thesis by simp
qed

section \<open>The instruction limiter\<close>





















end
